theory Spec2Isabelle
  imports Complex_Main "HOL-Library.Word"
begin

section \<open>Values of the plugin framework\<close>

text \<open>
  An attribute of the framework (\<^verbatim>\<open>types.String\<close>, \<^verbatim>\<open>types.Int64\<close>, \<^verbatim>\<open>types.Bool\<close>,
  \<^verbatim>\<open>types.Map\<close>, \<^verbatim>\<open>types.List\<close>) is null, unknown or a known value. The readers
  \<^verbatim>\<open>ValueString\<close>, \<^verbatim>\<open>ValueInt64\<close>, \<^verbatim>\<open>ValueBool\<close> and \<^verbatim>\<open>Elements\<close> return the zero
  value of the Go type for a null or unknown attribute.
\<close>

datatype 'a attr = Null | Unknown | Known 'a

fun IsNull :: "'a attr \<Rightarrow> bool" where
  "IsNull Null = True"
| "IsNull Unknown = False"
| "IsNull (Known v) = False"

fun IsUnknown :: "'a attr \<Rightarrow> bool" where
  "IsUnknown Null = False"
| "IsUnknown Unknown = True"
| "IsUnknown (Known v) = False"

fun ValueString :: "string attr \<Rightarrow> string" where
  "ValueString (Known s) = s"
| "ValueString Null = []"
| "ValueString Unknown = []"

fun ValueInt64 :: "64 word attr \<Rightarrow> 64 word" where
  "ValueInt64 (Known n) = n"
| "ValueInt64 Null = 0"
| "ValueInt64 Unknown = 0"

fun ValueBool :: "bool attr \<Rightarrow> bool" where
  "ValueBool (Known b) = b"
| "ValueBool Null = False"
| "ValueBool Unknown = False"

text \<open>\<^verbatim>\<open>ValueBoolPointer\<close>: nil for a null attribute, else a pointer to \<^verbatim>\<open>ValueBool\<close>.\<close>

fun ValueBoolPointer :: "bool attr \<Rightarrow> bool option" where
  "ValueBoolPointer Null = None"
| "ValueBoolPointer Unknown = Some False"
| "ValueBoolPointer (Known b) = Some b"

fun Elements :: "('k \<rightharpoonup> 'v) attr \<Rightarrow> ('k \<rightharpoonup> 'v)" where
  "Elements (Known m) = m"
| "Elements Null = Map.empty"
| "Elements Unknown = Map.empty"

text \<open>The decimal digits of a natural number (\<^verbatim>\<open>%d\<close>, and the index in a path).\<close>

definition digit_char :: "nat \<Rightarrow> char" where
  "digit_char n = ''0123456789'' ! n"

fun decimal :: "nat \<Rightarrow> string" where
  "decimal n = (if n < 10 then [digit_char n] else decimal (n div 10) @ [digit_char (n mod 10)])"

declare decimal.simps [simp del]

text \<open>
  \<^verbatim>\<open>ElementsAs(ctx, &target, false)\<close> of a list of strings into a \<^verbatim>\<open>[]string\<close>: a null
  list gives the nil slice; an unknown list, or the first null or unknown element, is
  an error diagnostic of the framework, attached to the path of the value inside the
  list (empty for the list itself, \<^verbatim>\<open>[i]\<close> for the element at index \<open>i\<close>). Its summary
  is "Value Conversion Error"; its long detail text is abridged here. A Go slice is a
  list or nil (\<open>None\<close>).
\<close>

fun element_strings :: "string attr list \<Rightarrow> string list option" where
  "element_strings [] = Some []"
| "element_strings (Known s # xs) = map_option ((#) s) (element_strings xs)"
| "element_strings (Null # xs) = None"
| "element_strings (Unknown # xs) = None"

text \<open>The index of the first element that is not known.\<close>

fun first_unhandled :: "string attr list \<Rightarrow> nat" where
  "first_unhandled [] = 0"
| "first_unhandled (Known s # xs) = Suc (first_unhandled xs)"
| "first_unhandled (Null # xs) = 0"
| "first_unhandled (Unknown # xs) = 0"

datatype severity = SeverityError | SeverityWarning

record diagnostic =
  Severity :: severity
  Summary :: string
  Detail :: string
  AttributePath :: "string option"

definition AddError :: "string \<Rightarrow> string \<Rightarrow> diagnostic list \<Rightarrow> diagnostic list" where
  "AddError s d ds =
     ds @ [\<lparr>Severity = SeverityError, Summary = s, Detail = d, AttributePath = None\<rparr>]"

definition AddAttributeError ::
  "string \<Rightarrow> string \<Rightarrow> string \<Rightarrow> diagnostic list \<Rightarrow> diagnostic list" where
  "AddAttributeError p s d ds =
     ds @ [\<lparr>Severity = SeverityError, Summary = s, Detail = d, AttributePath = Some p\<rparr>]"

definition AddWarning :: "string \<Rightarrow> string \<Rightarrow> diagnostic list \<Rightarrow> diagnostic list" where
  "AddWarning s d ds =
     ds @ [\<lparr>Severity = SeverityWarning, Summary = s, Detail = d, AttributePath = None\<rparr>]"

definition HasError :: "diagnostic list \<Rightarrow> bool" where
  "HasError ds = (\<exists>d \<in> set ds. Severity d = SeverityError)"

fun ElementsAs :: "string attr list attr \<Rightarrow> diagnostic list + string list option" where
  "ElementsAs Null = Inr None"
| "ElementsAs Unknown =
     Inl (AddAttributeError [] ''Value Conversion Error'' ''unhandled unknown value'' [])"
| "ElementsAs (Known xs) =
     (case element_strings xs of
        Some ss \<Rightarrow> Inr (Some ss)
      | None \<Rightarrow>
          Inl (AddAttributeError (''['' @ decimal (first_unhandled xs) @ '']'')
                 ''Value Conversion Error'' ''unhandled null or unknown element'' []))"

section \<open>JSON values\<close>

text \<open>
  A JSON value as \<^verbatim>\<open>encoding/json\<close> reads it into \<^verbatim>\<open>interface{}\<close> and writes it from a
  struct or a map. An object is a finite map from keys to values: the order of the keys
  carries no meaning, and a key is in the serialized object exactly when the map is
  defined there.
\<close>

datatype json =
    JNull
  | JBool bool
  | JNumber rat
  | JString string
  | JArray "json list"
  | JObject "string \<rightharpoonup> json"

text \<open>A Go map (\<^verbatim>\<open>map[string]interface{}\<close>) is nil or a map; nil is written \<^verbatim>\<open>null\<close>.\<close>

type_synonym gomap = "(string \<rightharpoonup> json) option"

fun json_of_gomap :: "gomap \<Rightarrow> json" where
  "json_of_gomap None = JNull"
| "json_of_gomap (Some m) = JObject m"

fun json_of_strings :: "string list option \<Rightarrow> json" where
  "json_of_strings None = JNull"
| "json_of_strings (Some ss) = JArray (map JString ss)"

text \<open>
  The loop that every resource runs over a map attribute of strings:
  \<^verbatim>\<open>for key, value := range m.Elements() { if strVal, ok := value.(types.String); ok
  { out[key] = strVal.ValueString() } }\<close>. The elements of such a map are always
  \<^verbatim>\<open>types.String\<close>, so the type assertion holds for every element.
\<close>

definition string_elements :: "(string \<rightharpoonup> string attr) attr \<Rightarrow> (string \<rightharpoonup> json)" where
  "string_elements m = (\<lambda>k. map_option (\<lambda>v. JString (ValueString v)) (Elements m k))"

section \<open>The API client\<close>

subsection \<open>Errors\<close>

text \<open>
  Every error of the client is built by \<^verbatim>\<open>fmt.Errorf\<close>; one constructor for each
  format string, and \<open>error_text\<close> is the \<^verbatim>\<open>Error()\<close> method.
\<close>

datatype error =
    CreateRequestError string
  | ExecuteRequestError string
  | ReadBodyError string
  | APIError int string
  | UnmarshalResponseError string
  | EnvelopeError string
  | UnmarshalDataError string
  | BaseURLRequired
  | SignupResponseError error

definition itoa :: "int \<Rightarrow> string" where
  "itoa i = (if i < 0 then CHR ''-'' # decimal (nat (- i)) else decimal (nat i))"

fun error_text :: "error \<Rightarrow> string" where
  "error_text (CreateRequestError e) = ''failed to create request: '' @ e"
| "error_text (ExecuteRequestError e) = ''failed to execute request: '' @ e"
| "error_text (ReadBodyError e) = ''failed to read response body: '' @ e"
| "error_text (APIError status msg) = ''API error ('' @ itoa status @ ''): '' @ msg"
| "error_text (UnmarshalResponseError e) = ''failed to unmarshal API response: '' @ e"
| "error_text (EnvelopeError msg) = ''API error: '' @ msg"
| "error_text (UnmarshalDataError e) = ''failed to unmarshal response data: '' @ e"
| "error_text BaseURLRequired = ''base URL is required''"
| "error_text (SignupResponseError e) = ''failed to unmarshal response: '' @ error_text e"

fun is_APIError :: "error \<Rightarrow> bool" where
  "is_APIError (APIError status msg) = True"
| "is_APIError e = False"

subsection \<open>The envelope and the network\<close>

text \<open>\<^verbatim>\<open>APIResponse\<close>: \<^verbatim>\<open>Data\<close> is a raw message (nil when the field is absent), \<^verbatim>\<open>Error\<close>
  a pointer to a string.\<close>

record APIResponse =
  Data :: "string option"
  Error :: "string option"
  Meta :: "(string \<rightharpoonup> string) option"

record Client =
  BaseURL :: string
  APIKey :: string

record http_request =
  Method :: string
  URL :: string
  Header :: "(string \<times> string) list"
  Body :: "json option"

text \<open>What \<^verbatim>\<open>HTTPClient.Do\<close> followed by \<^verbatim>\<open>io.ReadAll\<close> gives for a request.\<close>

datatype roundtrip =
    DoFailed string
  | ReadAllFailed string
  | Response int string

subsection \<open>Entities and request bodies\<close>

text \<open>
  The structs of the client package. Field names carry the initials of their struct
  (\<open>chk_\<close> for \<^verbatim>\<open>Check\<close>, \<open>ccr_\<close> for \<^verbatim>\<open>CreateCheckRequest\<close>, and so on). A Go
  \<^verbatim>\<open>int\<close> is an integer, a pointer is an option, a slice is a list or nil.
\<close>

record Check =
  chk_ID :: string
  chk_OrgID :: string
  chk_Name :: string
  chk_Type :: string
  chk_Config :: gomap
  chk_ConfigHash :: string
  chk_IntervalSeconds :: int
  chk_Regions :: "string list option"
  chk_Enabled :: bool
  chk_Inverted :: bool
  chk_SimultaneousRegions :: bool
  chk_RecheckOnFailure :: bool
  chk_ExpiresAfterSeconds :: "int option"
  chk_HealthStatus :: string
  chk_LastChecked :: "string option"
  chk_CreatedAt :: string
  chk_UpdatedAt :: string

definition Check_zero :: Check where
  "Check_zero =
     \<lparr>chk_ID = [], chk_OrgID = [], chk_Name = [], chk_Type = [], chk_Config = None,
      chk_ConfigHash = [], chk_IntervalSeconds = 0, chk_Regions = None,
      chk_Enabled = False, chk_Inverted = False, chk_SimultaneousRegions = False,
      chk_RecheckOnFailure = False, chk_ExpiresAfterSeconds = None,
      chk_HealthStatus = [], chk_LastChecked = None, chk_CreatedAt = [],
      chk_UpdatedAt = []\<rparr>"

record CreateCheckRequest =
  ccr_Name :: string
  ccr_Type :: string
  ccr_Config :: gomap
  ccr_IntervalSeconds :: int
  ccr_Regions :: "string list option"
  ccr_Enabled :: bool
  ccr_Inverted :: "bool option"
  ccr_SimultaneousRegions :: "bool option"
  ccr_RecheckOnFailure :: "bool option"
  ccr_ExpiresAfterSeconds :: "int option"

record UpdateCheckRequest =
  ucr_Name :: "string option"
  ucr_Type :: "string option"
  ucr_Config :: "gomap option"
  ucr_IntervalSeconds :: "int option"
  ucr_Regions :: "string list option option"
  ucr_Enabled :: "bool option"
  ucr_Inverted :: "bool option"
  ucr_SimultaneousRegions :: "bool option"
  ucr_RecheckOnFailure :: "bool option"
  ucr_ExpiresAfterSeconds :: "int option"

record AlertRule =
  ar_ID :: string
  ar_CheckID :: string
  ar_Name :: string
  ar_Condition :: gomap
  ar_NotificationChannelIDs :: "string list option"
  ar_Enabled :: bool
  ar_CreatedAt :: string
  ar_UpdatedAt :: string

definition AlertRule_zero :: AlertRule where
  "AlertRule_zero =
     \<lparr>ar_ID = [], ar_CheckID = [], ar_Name = [], ar_Condition = None,
      ar_NotificationChannelIDs = None, ar_Enabled = False, ar_CreatedAt = [],
      ar_UpdatedAt = []\<rparr>"

record UpdateAlertRuleRequest =
  uar_Name :: "string option"
  uar_Condition :: "gomap option"
  uar_NotificationChannelIDs :: "string list option option"
  uar_Enabled :: "bool option"

record NotificationChannel =
  nc_ID :: string
  nc_OrgID :: string
  nc_Name :: string
  nc_Type :: string
  nc_Config :: gomap
  nc_Enabled :: bool
  nc_CreatedAt :: string
  nc_UpdatedAt :: string

definition NotificationChannel_zero :: NotificationChannel where
  "NotificationChannel_zero =
     \<lparr>nc_ID = [], nc_OrgID = [], nc_Name = [], nc_Type = [], nc_Config = None,
      nc_Enabled = False, nc_CreatedAt = [], nc_UpdatedAt = []\<rparr>"

record QuickSignupRequest =
  qsr_Email :: string
  qsr_OrgName :: string

record QuickSignupResponse =
  qs_OrgID :: string
  qs_APIKey :: string
  qs_Email :: string
  qs_VerificationRequired :: bool

definition QuickSignupResponse_zero :: QuickSignupResponse where
  "QuickSignupResponse_zero =
     \<lparr>qs_OrgID = [], qs_APIKey = [], qs_Email = [], qs_VerificationRequired = False\<rparr>"

text \<open>
  \<^verbatim>\<open>json.Marshal\<close> of the request structs, by their field tags. A field tagged
  \<^verbatim>\<open>omitempty\<close> is left out when it is a nil pointer, or a slice of length zero; a
  pointer that is not nil is written, whatever it points to; a string is left out when
  it is empty.
\<close>

definition omitempty :: "string \<Rightarrow> json option \<Rightarrow> (string \<rightharpoonup> json) \<Rightarrow> (string \<rightharpoonup> json)" where
  "omitempty k v m = (case v of None \<Rightarrow> m | Some j \<Rightarrow> m(k \<mapsto> j))"

definition nonempty_strings :: "string list option \<Rightarrow> json option" where
  "nonempty_strings r =
     (case r of None \<Rightarrow> None | Some ss \<Rightarrow> if ss = [] then None else Some (JArray (map JString ss)))"

definition JInt :: "int \<Rightarrow> json" where
  "JInt i = JNumber (of_int i)"

definition marshal_CreateCheckRequest :: "CreateCheckRequest \<Rightarrow> json" where
  "marshal_CreateCheckRequest r =
     JObject
       (omitempty ''expires_after_seconds'' (map_option JInt (ccr_ExpiresAfterSeconds r))
       (omitempty ''recheck_on_failure'' (map_option JBool (ccr_RecheckOnFailure r))
       (omitempty ''simultaneous_regions'' (map_option JBool (ccr_SimultaneousRegions r))
       (omitempty ''inverted'' (map_option JBool (ccr_Inverted r))
       (omitempty ''regions'' (nonempty_strings (ccr_Regions r))
         [''name'' \<mapsto> JString (ccr_Name r),
          ''type'' \<mapsto> JString (ccr_Type r),
          ''config'' \<mapsto> json_of_gomap (ccr_Config r),
          ''interval_seconds'' \<mapsto> JInt (ccr_IntervalSeconds r),
          ''enabled'' \<mapsto> JBool (ccr_Enabled r)])))))"

definition marshal_UpdateCheckRequest :: "UpdateCheckRequest \<Rightarrow> json" where
  "marshal_UpdateCheckRequest r =
     JObject
       (omitempty ''expires_after_seconds'' (map_option JInt (ucr_ExpiresAfterSeconds r))
       (omitempty ''recheck_on_failure'' (map_option JBool (ucr_RecheckOnFailure r))
       (omitempty ''simultaneous_regions'' (map_option JBool (ucr_SimultaneousRegions r))
       (omitempty ''inverted'' (map_option JBool (ucr_Inverted r))
       (omitempty ''enabled'' (map_option JBool (ucr_Enabled r))
       (omitempty ''regions'' (map_option json_of_strings (ucr_Regions r))
       (omitempty ''interval_seconds'' (map_option JInt (ucr_IntervalSeconds r))
       (omitempty ''config'' (map_option json_of_gomap (ucr_Config r))
       (omitempty ''type'' (map_option JString (ucr_Type r))
       (omitempty ''name'' (map_option JString (ucr_Name r)) Map.empty))))))))))"

definition marshal_UpdateAlertRuleRequest :: "UpdateAlertRuleRequest \<Rightarrow> json" where
  "marshal_UpdateAlertRuleRequest r =
     JObject
       (omitempty ''enabled'' (map_option JBool (uar_Enabled r))
       (omitempty ''notification_channel_ids''
          (map_option json_of_strings (uar_NotificationChannelIDs r))
       (omitempty ''condition'' (map_option json_of_gomap (uar_Condition r))
       (omitempty ''name'' (map_option JString (uar_Name r)) Map.empty))))"

definition marshal_QuickSignupRequest :: "QuickSignupRequest \<Rightarrow> json" where
  "marshal_QuickSignupRequest r =
     JObject
       (omitempty ''org_name''
          (if qsr_OrgName r = [] then None else Some (JString (qsr_OrgName r)))
          [''email'' \<mapsto> JString (qsr_Email r)])"

text \<open>
  The Go runtime the client runs on: \<^verbatim>\<open>http.NewRequest\<close> (its error for a method and
  URL, if any), the round trip of a request, and \<^verbatim>\<open>json.Unmarshal\<close> of a byte string
  into a value of each Go type the client decodes (\<open>Inl\<close> the decoding error; the
  decoders of entities take the value to fill). They belong to the standard library
  and to the remote server, so the client takes them as given.
\<close>

record runtime =
  NewRequest_error :: "string \<Rightarrow> string \<Rightarrow> string option"
  Do :: "http_request \<Rightarrow> roundtrip"
  Unmarshal_APIResponse :: "string \<Rightarrow> string + APIResponse"
  Unmarshal_Check :: "string \<Rightarrow> Check \<Rightarrow> string + Check"
  Unmarshal_AlertRule :: "string \<Rightarrow> AlertRule \<Rightarrow> string + AlertRule"
  Unmarshal_NotificationChannel ::
    "string \<Rightarrow> NotificationChannel \<Rightarrow> string + NotificationChannel"
  Unmarshal_map :: "string \<Rightarrow> string + gomap"
  Unmarshal_QuickSignupResponse ::
    "string \<Rightarrow> QuickSignupResponse \<Rightarrow> string + QuickSignupResponse"

subsection \<open>\<^verbatim>\<open>DoRequest\<close>\<close>

text \<open>
  \<^verbatim>\<open>strings.TrimSpace\<close> removes the leading and the trailing white space, as Unicode
  defines it, from a string of UTF-8 bytes. The white-space characters and their
  encodings: the six ASCII ones, U+0085, U+00A0, U+1680, U+2000 to U+200A, U+2028,
  U+2029, U+202F, U+205F and U+3000.
\<close>

definition white_space :: "string list" where
  "white_space =
     [[CHR 0x20], [CHR 0x09], [CHR 0x0A], [CHR 0x0B], [CHR 0x0C], [CHR 0x0D],
      [CHR 0xC2, CHR 0x85], [CHR 0xC2, CHR 0xA0],
      [CHR 0xE1, CHR 0x9A, CHR 0x80],
      [CHR 0xE2, CHR 0x80, CHR 0x80], [CHR 0xE2, CHR 0x80, CHR 0x81],
      [CHR 0xE2, CHR 0x80, CHR 0x82], [CHR 0xE2, CHR 0x80, CHR 0x83],
      [CHR 0xE2, CHR 0x80, CHR 0x84], [CHR 0xE2, CHR 0x80, CHR 0x85],
      [CHR 0xE2, CHR 0x80, CHR 0x86], [CHR 0xE2, CHR 0x80, CHR 0x87],
      [CHR 0xE2, CHR 0x80, CHR 0x88], [CHR 0xE2, CHR 0x80, CHR 0x89],
      [CHR 0xE2, CHR 0x80, CHR 0x8A],
      [CHR 0xE2, CHR 0x80, CHR 0xA8], [CHR 0xE2, CHR 0x80, CHR 0xA9],
      [CHR 0xE2, CHR 0x80, CHR 0xAF], [CHR 0xE2, CHR 0x81, CHR 0x9F],
      [CHR 0xE3, CHR 0x80, CHR 0x80]]"

text \<open>\<open>trim_prefixes ps s\<close> removes from the front of \<open>s\<close> the members of \<open>ps\<close> it
  starts with, one after the other, until it starts with none.\<close>

function trim_prefixes :: "string list \<Rightarrow> string \<Rightarrow> string" where
  "trim_prefixes ps s =
     (case find (\<lambda>p. p \<noteq> [] \<and> take (length p) s = p) ps of
        None \<Rightarrow> s
      | Some p \<Rightarrow> trim_prefixes ps (drop (length p) s))"
  by pat_completeness auto
termination
proof (relation "measure (\<lambda>(ps, s). length s)")
  show "wf (measure (\<lambda>(ps, s). length s))" by simp
next
  fix ps :: "string list" and s p :: string
  assume "find (\<lambda>p. p \<noteq> [] \<and> take (length p) s = p) ps = Some p"
  then have "p \<noteq> []" and "take (length p) s = p"
    by (auto simp: find_Some_iff)
  then have "s \<noteq> []" by auto
  with \<open>p \<noteq> []\<close> show "((ps, drop (length p) s), (ps, s)) \<in> measure (\<lambda>(ps, s). length s)"
    by simp
qed

declare trim_prefixes.simps [simp del]

definition TrimSpace :: "string \<Rightarrow> string" where
  "TrimSpace s =
     rev (trim_prefixes (map rev white_space) (rev (trim_prefixes white_space s)))"

definition HasPrefix :: "string \<Rightarrow> string \<Rightarrow> bool" where
  "HasPrefix s p = (take (length p) s = p)"

definition request_headers :: "Client \<Rightarrow> (string \<times> string) list" where
  "request_headers c =
     (let apiKey = TrimSpace (APIKey c) in
      (if apiKey \<noteq> []
       then (if \<not> HasPrefix apiKey ''Bearer ''
             then [(''Authorization'', ''Bearer '' @ apiKey)]
             else [(''Authorization'', apiKey)])
       else [])
      @ [(''Content-Type'', ''application/json''),
         (''User-Agent'', ''terraform-provider-quismon/1.0'')])"

text \<open>
  \<open>DoRequest\<close> returns the requests it put on the network (none or one) and its result.
  The body arrives already serialized by the typed \<open>marshal_\<close> functions below, which
  cannot fail on the request structs of this client.
\<close>

definition DoRequest ::
  "runtime \<Rightarrow> Client \<Rightarrow> string \<Rightarrow> string \<Rightarrow> json option
     \<Rightarrow> http_request list \<times> (error + string)" where
  "DoRequest rt c method path body =
     (case NewRequest_error rt method (BaseURL c @ path) of
        Some e \<Rightarrow> ([], Inl (CreateRequestError e))
      | None \<Rightarrow>
          (let req = \<lparr>Method = method, URL = BaseURL c @ path,
                      Header = request_headers c, Body = body\<rparr>
           in case Do rt req of
                DoFailed e \<Rightarrow> ([req], Inl (ExecuteRequestError e))
              | ReadAllFailed e \<Rightarrow> ([req], Inl (ReadBodyError e))
              | Response status bodyBytes \<Rightarrow>
                  if status \<ge> 400
                  then (case Unmarshal_APIResponse rt bodyBytes of
                          Inr apiResp \<Rightarrow>
                            (case Error apiResp of
                               Some msg \<Rightarrow> ([req], Inl (APIError status msg))
                             | None \<Rightarrow> ([req], Inl (APIError status bodyBytes)))
                        | Inl e \<Rightarrow> ([req], Inl (APIError status bodyBytes)))
                  else ([req], Inr bodyBytes)))"

subsection \<open>\<^verbatim>\<open>UnmarshalAPIResponse\<close>\<close>

text \<open>
  The output value \<open>v\<close> is passed in and returned: \<open>Inr v\<close> with the same \<open>v\<close> is a
  success that left it unmodified. \<open>dec\<close> is \<^verbatim>\<open>json.Unmarshal(apiResp.Data, v)\<close> for the
  type of \<open>v\<close>.
\<close>

definition UnmarshalAPIResponse ::
  "runtime \<Rightarrow> (string \<Rightarrow> 'v \<Rightarrow> string + 'v) \<Rightarrow> string \<Rightarrow> 'v \<Rightarrow> error + 'v" where
  "UnmarshalAPIResponse rt dec data v =
     (case Unmarshal_APIResponse rt data of
        Inl e \<Rightarrow> Inl (UnmarshalResponseError e)
      | Inr apiResp \<Rightarrow>
          (case Error apiResp of
             Some msg \<Rightarrow> Inl (EnvelopeError msg)
           | None \<Rightarrow>
               (case Data apiResp of
                  None \<Rightarrow> Inr v
                | Some raw \<Rightarrow>
                    (case dec raw v of
                       Inl e \<Rightarrow> Inl (UnmarshalDataError e)
                     | Inr v' \<Rightarrow> Inr v'))))"

subsection \<open>Client operations\<close>

text \<open>Each operation is one \<open>DoRequest\<close> and, on success, one \<open>UnmarshalAPIResponse\<close>
  into a zero value.\<close>

definition unwrap ::
  "runtime \<Rightarrow> (string \<Rightarrow> 'v \<Rightarrow> string + 'v) \<Rightarrow> 'v
     \<Rightarrow> http_request list \<times> (error + string) \<Rightarrow> http_request list \<times> (error + 'v)" where
  "unwrap rt dec zero r =
     (case r of
        (reqs, Inl err) \<Rightarrow> (reqs, Inl err)
      | (reqs, Inr data) \<Rightarrow> (reqs, UnmarshalAPIResponse rt dec data zero))"

definition GetCheck ::
  "runtime \<Rightarrow> Client \<Rightarrow> string \<Rightarrow> http_request list \<times> (error + Check)" where
  "GetCheck rt c ident =
     unwrap rt (Unmarshal_Check rt) Check_zero
       (DoRequest rt c ''GET'' (''/v1/checks/'' @ ident) None)"

definition CreateCheck ::
  "runtime \<Rightarrow> Client \<Rightarrow> CreateCheckRequest \<Rightarrow> http_request list \<times> (error + Check)" where
  "CreateCheck rt c req =
     unwrap rt (Unmarshal_Check rt) Check_zero
       (DoRequest rt c ''POST'' ''/v1/checks'' (Some (marshal_CreateCheckRequest req)))"

definition UpdateCheck ::
  "runtime \<Rightarrow> Client \<Rightarrow> string \<Rightarrow> UpdateCheckRequest
     \<Rightarrow> http_request list \<times> (error + Check)" where
  "UpdateCheck rt c ident req =
     unwrap rt (Unmarshal_Check rt) Check_zero
       (DoRequest rt c ''PUT'' (''/v1/checks/'' @ ident) (Some (marshal_UpdateCheckRequest req)))"

definition UpdateAlertRule ::
  "runtime \<Rightarrow> Client \<Rightarrow> string \<Rightarrow> string \<Rightarrow> UpdateAlertRuleRequest
     \<Rightarrow> http_request list \<times> (error + AlertRule)" where
  "UpdateAlertRule rt c checkID ruleID req =
     unwrap rt (Unmarshal_AlertRule rt) AlertRule_zero
       (DoRequest rt c ''PUT'' (''/v1/checks/'' @ checkID @ ''/alerts/'' @ ruleID)
          (Some (marshal_UpdateAlertRuleRequest req)))"

definition GetNotificationChannel ::
  "runtime \<Rightarrow> Client \<Rightarrow> string \<Rightarrow> http_request list \<times> (error + NotificationChannel)" where
  "GetNotificationChannel rt c ident =
     unwrap rt (Unmarshal_NotificationChannel rt) NotificationChannel_zero
       (DoRequest rt c ''GET'' (''/v1/notification-channels/'' @ ident) None)"

text \<open>\<^verbatim>\<open>New\<close>: the base URL is required, the API key is not.\<close>

definition New :: "string \<Rightarrow> string \<Rightarrow> error + Client" where
  "New baseURL apiKey =
     (if baseURL = [] then Inl BaseURLRequired
      else Inr \<lparr>BaseURL = baseURL, APIKey = apiKey\<rparr>)"

definition DeleteCheck ::
  "runtime \<Rightarrow> Client \<Rightarrow> string \<Rightarrow> http_request list \<times> error option" where
  "DeleteCheck rt c ident =
     (case DoRequest rt c ''DELETE'' (''/v1/checks/'' @ ident) None of
        (reqs, Inl err) \<Rightarrow> (reqs, Some err)
      | (reqs, Inr data) \<Rightarrow> (reqs, None))"

text \<open>\<^verbatim>\<open>QuickSignup\<close> needs no client: it sends its own request, without a key.\<close>

definition QuickSignup ::
  "runtime \<Rightarrow> string \<Rightarrow> QuickSignupRequest
     \<Rightarrow> http_request list \<times> (error + QuickSignupResponse)" where
  "QuickSignup rt baseURL req =
     (if baseURL = [] then ([], Inl BaseURLRequired)
      else (case NewRequest_error rt ''POST'' (baseURL @ ''/v1/auth/quick-signup'') of
              Some e \<Rightarrow> ([], Inl (CreateRequestError e))
            | None \<Rightarrow>
                (let httpReq =
                       \<lparr>Method = ''POST'', URL = baseURL @ ''/v1/auth/quick-signup'',
                        Header = [(''Content-Type'', ''application/json''),
                                  (''User-Agent'', ''terraform-provider-quismon/1.0'')],
                        Body = Some (marshal_QuickSignupRequest req)\<rparr>
                 in case Do rt httpReq of
                      DoFailed e \<Rightarrow> ([httpReq], Inl (ExecuteRequestError e))
                    | ReadAllFailed e \<Rightarrow> ([httpReq], Inl (ReadBodyError e))
                    | Response status bodyBytes \<Rightarrow>
                        if status \<ge> 400
                        then (case Unmarshal_APIResponse rt bodyBytes of
                                Inr apiResp \<Rightarrow>
                                  (case Error apiResp of
                                     Some msg \<Rightarrow> ([httpReq], Inl (APIError status msg))
                                   | None \<Rightarrow> ([httpReq], Inl (APIError status bodyBytes)))
                              | Inl e \<Rightarrow> ([httpReq], Inl (APIError status bodyBytes)))
                        else (case UnmarshalAPIResponse rt (Unmarshal_QuickSignupResponse rt)
                                     bodyBytes QuickSignupResponse_zero of
                                Inl err \<Rightarrow> ([httpReq], Inl (SignupResponseError err))
                              | Inr signupResp \<Rightarrow> ([httpReq], Inr signupResp)))))"

section \<open>The resources\<close>

text \<open>
  A resource operation receives the plan or the state as a value of its model struct
  and answers with the requests it sent, its diagnostics, and the state its response
  holds when it returns (\<open>None\<close> when the response holds no state). Read, Update and
  Delete start from a response that holds the prior state.
\<close>

record 'm result =
  Requests :: "http_request list"
  Diagnostics :: "diagnostic list"
  State :: "'m option"

subsection \<open>Check\<close>

record checkResourceModel =
  crm_ID :: "string attr"
  crm_OrgID :: "string attr"
  crm_Name :: "string attr"
  crm_Type :: "string attr"
  crm_Config :: "(string \<rightharpoonup> string attr) attr"
  crm_ConfigJSON :: "string attr"
  crm_IntervalSeconds :: "64 word attr"
  crm_Regions :: "string attr list attr"
  crm_Enabled :: "bool attr"
  crm_SimultaneousRegions :: "bool attr"
  crm_RecheckOnFailure :: "bool attr"
  crm_IaCLocked :: "bool attr"
  crm_HealthStatus :: "string attr"
  crm_LastChecked :: "string attr"
  crm_CreatedAt :: "string attr"
  crm_UpdatedAt :: "string attr"

fun string_or_null :: "string option \<Rightarrow> string attr" where
  "string_or_null (Some s) = Known s"
| "string_or_null None = Null"

text \<open>The request that \<open>Create\<close> builds from the plan, the config map and the
  regions.\<close>

definition checkResource_createReq ::
  "checkResourceModel \<Rightarrow> gomap \<Rightarrow> string list option \<Rightarrow> CreateCheckRequest" where
  "checkResource_createReq plan configMap regions =
     \<lparr>ccr_Name = ValueString (crm_Name plan),
      ccr_Type = ValueString (crm_Type plan),
      ccr_Config = configMap,
      ccr_IntervalSeconds = sint (ValueInt64 (crm_IntervalSeconds plan)),
      ccr_Regions = regions,
      ccr_Enabled = ValueBool (crm_Enabled plan),
      ccr_Inverted = None,
      ccr_SimultaneousRegions = ValueBoolPointer (crm_SimultaneousRegions plan),
      ccr_RecheckOnFailure = ValueBoolPointer (crm_RecheckOnFailure plan),
      ccr_ExpiresAfterSeconds = None\<rparr>"

text \<open>\<open>Create\<close> from the conversion of the regions on, once the config map is built.\<close>

definition checkResource_Create_submit ::
  "runtime \<Rightarrow> Client \<Rightarrow> checkResourceModel \<Rightarrow> gomap \<Rightarrow> checkResourceModel result" where
  "checkResource_Create_submit rt c plan configMap =
     (case ElementsAs (crm_Regions plan) of
        Inl diags \<Rightarrow> \<lparr>Requests = [], Diagnostics = diags, State = None\<rparr>
      | Inr regions \<Rightarrow>
          (case CreateCheck rt c (checkResource_createReq plan configMap regions) of
                (reqs, Inl err) \<Rightarrow>
                  \<lparr>Requests = reqs,
                   Diagnostics =
                     AddError ''Error Creating Check''
                       (''Could not create check, unexpected error: '' @ error_text err) [],
                   State = None\<rparr>
              | (reqs, Inr check) \<Rightarrow>
                  \<lparr>Requests = reqs, Diagnostics = [],
                   State = Some (plan
                     \<lparr>crm_ID := Known (chk_ID check),
                      crm_OrgID := Known (chk_OrgID check),
                      crm_SimultaneousRegions := Known (chk_SimultaneousRegions check),
                      crm_RecheckOnFailure := Known (chk_RecheckOnFailure check),
                      crm_HealthStatus := Known (chk_HealthStatus check),
                      crm_LastChecked := string_or_null (chk_LastChecked check),
                      crm_CreatedAt := Known (chk_CreatedAt check),
                      crm_UpdatedAt := Known (chk_UpdatedAt check)\<rparr>)\<rparr>))"

definition checkResource_Create ::
  "runtime \<Rightarrow> Client \<Rightarrow> checkResourceModel \<Rightarrow> checkResourceModel result" where
  "checkResource_Create rt c plan =
     (if \<not> IsNull (crm_ConfigJSON plan) \<and> ValueString (crm_ConfigJSON plan) \<noteq> []
      then (case Unmarshal_map rt (ValueString (crm_ConfigJSON plan)) of
              Inl e \<Rightarrow>
                \<lparr>Requests = [],
                 Diagnostics =
                   AddError ''Error Parsing config_json''
                     (''Could not parse config_json as JSON: '' @ e) [],
                 State = None\<rparr>
            | Inr configMap \<Rightarrow> checkResource_Create_submit rt c plan configMap)
      else if \<not> IsNull (crm_Config plan)
      then checkResource_Create_submit rt c plan (Some (string_elements (crm_Config plan)))
      else \<lparr>Requests = [],
            Diagnostics =
              AddError ''Missing Configuration''
                ''Either 'config' or 'config_json' must be specified'' [],
            State = None\<rparr>)"

definition checkResource_Read ::
  "runtime \<Rightarrow> Client \<Rightarrow> checkResourceModel \<Rightarrow> checkResourceModel result" where
  "checkResource_Read rt c state =
     (case GetCheck rt c (ValueString (crm_ID state)) of
        (reqs, Inl err) \<Rightarrow>
          \<lparr>Requests = reqs,
           Diagnostics =
             AddError ''Error Reading Check''
               (''Could not read check ID '' @ ValueString (crm_ID state) @ '': ''
                  @ error_text err) [],
           State = Some state\<rparr>
      | (reqs, Inr check) \<Rightarrow>
          \<lparr>Requests = reqs, Diagnostics = [],
           State = Some (state
             \<lparr>crm_OrgID := Known (chk_OrgID check),
              crm_Name := Known (chk_Name check),
              crm_Type := Known (chk_Type check),
              crm_IntervalSeconds := Known (word_of_int (chk_IntervalSeconds check)),
              crm_Enabled := Known (chk_Enabled check),
              crm_SimultaneousRegions := Known (chk_SimultaneousRegions check),
              crm_RecheckOnFailure := Known (chk_RecheckOnFailure check),
              crm_HealthStatus := Known (chk_HealthStatus check),
              crm_LastChecked := string_or_null (chk_LastChecked check),
              crm_CreatedAt := Known (chk_CreatedAt check),
              crm_UpdatedAt := Known (chk_UpdatedAt check)\<rparr>)\<rparr>)"

text \<open>The request that \<open>Update\<close> builds: every field it sets is a pointer to a local
  variable, so none of them is nil.\<close>

definition checkResource_updateReq ::
  "checkResourceModel \<Rightarrow> gomap \<Rightarrow> string list option \<Rightarrow> UpdateCheckRequest" where
  "checkResource_updateReq plan configMap regions =
     \<lparr>ucr_Name = Some (ValueString (crm_Name plan)),
      ucr_Type = Some (ValueString (crm_Type plan)),
      ucr_Config = Some configMap,
      ucr_IntervalSeconds = Some (sint (ValueInt64 (crm_IntervalSeconds plan))),
      ucr_Regions = Some regions,
      ucr_Enabled = Some (ValueBool (crm_Enabled plan)),
      ucr_Inverted = None,
      ucr_SimultaneousRegions = Some (ValueBool (crm_SimultaneousRegions plan)),
      ucr_RecheckOnFailure = Some (ValueBool (crm_RecheckOnFailure plan)),
      ucr_ExpiresAfterSeconds = None\<rparr>"

text \<open>\<open>Update\<close> from the conversion of the regions on; \<open>prior\<close> is the state the
  response starts from.\<close>

definition checkResource_Update_submit ::
  "runtime \<Rightarrow> Client \<Rightarrow> checkResourceModel \<Rightarrow> checkResourceModel \<Rightarrow> gomap
     \<Rightarrow> checkResourceModel result" where
  "checkResource_Update_submit rt c plan prior configMap =
     (case ElementsAs (crm_Regions plan) of
        Inl diags \<Rightarrow> \<lparr>Requests = [], Diagnostics = diags, State = Some prior\<rparr>
      | Inr regions \<Rightarrow>
          (case UpdateCheck rt c (ValueString (crm_ID plan))
                  (checkResource_updateReq plan configMap regions) of
                (reqs, Inl err) \<Rightarrow>
                  \<lparr>Requests = reqs,
                   Diagnostics =
                     AddError ''Error Updating Check''
                       (''Could not update check, unexpected error: '' @ error_text err) [],
                   State = Some prior\<rparr>
              | (reqs, Inr check) \<Rightarrow>
                  \<lparr>Requests = reqs, Diagnostics = [],
                   State = Some (plan
                     \<lparr>crm_OrgID := Known (chk_OrgID check),
                      crm_SimultaneousRegions := Known (chk_SimultaneousRegions check),
                      crm_RecheckOnFailure := Known (chk_RecheckOnFailure check),
                      crm_HealthStatus := Known (chk_HealthStatus check),
                      crm_LastChecked := string_or_null (chk_LastChecked check),
                      crm_CreatedAt := Known (chk_CreatedAt check),
                      crm_UpdatedAt := Known (chk_UpdatedAt check)\<rparr>)\<rparr>))"

text \<open>In \<open>Update\<close> the chain of tests on the two config forms has no final \<^verbatim>\<open>else\<close>:
  with neither form the map stays nil and the function goes on.\<close>

definition checkResource_Update ::
  "runtime \<Rightarrow> Client \<Rightarrow> checkResourceModel \<Rightarrow> checkResourceModel
     \<Rightarrow> checkResourceModel result" where
  "checkResource_Update rt c plan prior =
     (if \<not> IsNull (crm_ConfigJSON plan) \<and> ValueString (crm_ConfigJSON plan) \<noteq> []
      then (case Unmarshal_map rt (ValueString (crm_ConfigJSON plan)) of
              Inl e \<Rightarrow>
                \<lparr>Requests = [],
                 Diagnostics =
                   AddError ''Error Parsing config_json''
                     (''Could not parse config_json as JSON: '' @ e) [],
                 State = Some prior\<rparr>
            | Inr configMap \<Rightarrow> checkResource_Update_submit rt c plan prior configMap)
      else if \<not> IsNull (crm_Config plan)
      then checkResource_Update_submit rt c plan prior
             (Some (string_elements (crm_Config plan)))
      else checkResource_Update_submit rt c plan prior None)"

definition checkResource_Delete ::
  "runtime \<Rightarrow> Client \<Rightarrow> checkResourceModel \<Rightarrow> checkResourceModel result" where
  "checkResource_Delete rt c state =
     (case DeleteCheck rt c (ValueString (crm_ID state)) of
        (reqs, Some err) \<Rightarrow>
          \<lparr>Requests = reqs,
           Diagnostics =
             AddError ''Error Deleting Check''
               (''Could not delete check, unexpected error: '' @ error_text err) [],
           State = Some state\<rparr>
      | (reqs, None) \<Rightarrow> \<lparr>Requests = reqs, Diagnostics = [], State = Some state\<rparr>)"

text \<open>The plan modifier of \<^verbatim>\<open>expires_after_seconds\<close>: from the planned value and the
  state value to the planned value of the response.\<close>

definition PlanModifyInt64 :: "64 word attr \<Rightarrow> 64 word attr \<Rightarrow> 64 word attr" where
  "PlanModifyInt64 PlanValue StateValue =
     (if \<not> IsNull PlanValue \<and> 0 < sint (ValueInt64 PlanValue) then PlanValue
      else if \<not> IsNull StateValue then StateValue
      else PlanValue)"

subsection \<open>Alert rule\<close>

record alertRuleResourceModel =
  arm_ID :: "string attr"
  arm_CheckID :: "string attr"
  arm_Name :: "string attr"
  arm_Condition :: "(string \<rightharpoonup> string attr) attr"
  arm_NotificationChannelIDs :: "string attr list attr"
  arm_Enabled :: "bool attr"
  arm_CreatedAt :: "string attr"
  arm_UpdatedAt :: "string attr"

text \<open>The request that \<open>Update\<close> builds "with only changed fields": a field of the
  request is a pointer, left nil unless the test on that field holds. \<^verbatim>\<open>Equal\<close> of a
  map or a list attribute is equality of the attributes.\<close>

definition alertRule_updateReq ::
  "alertRuleResourceModel \<Rightarrow> alertRuleResourceModel \<Rightarrow> string list option
     \<Rightarrow> UpdateAlertRuleRequest" where
  "alertRule_updateReq plan state channelIDs =
     \<lparr>uar_Name =
        (if ValueString (arm_Name plan) \<noteq> ValueString (arm_Name state)
         then Some (ValueString (arm_Name plan)) else None),
      uar_Condition =
        (if \<not> (arm_Condition plan = arm_Condition state)
         then Some (Some (string_elements (arm_Condition plan))) else None),
      uar_NotificationChannelIDs =
        (if \<not> (arm_NotificationChannelIDs plan = arm_NotificationChannelIDs state)
         then Some channelIDs else None),
      uar_Enabled =
        (if ValueBool (arm_Enabled plan) \<noteq> ValueBool (arm_Enabled state)
         then Some (ValueBool (arm_Enabled plan)) else None)\<rparr>"

definition alertRuleResource_Update ::
  "runtime \<Rightarrow> Client \<Rightarrow> alertRuleResourceModel \<Rightarrow> alertRuleResourceModel
     \<Rightarrow> alertRuleResourceModel result" where
  "alertRuleResource_Update rt c plan state =
     (case ElementsAs (arm_NotificationChannelIDs plan) of
        Inl diags \<Rightarrow> \<lparr>Requests = [], Diagnostics = diags, State = Some state\<rparr>
      | Inr channelIDs \<Rightarrow>
          (case UpdateAlertRule rt c (ValueString (arm_CheckID state))
                  (ValueString (arm_ID state)) (alertRule_updateReq plan state channelIDs) of
             (reqs, Inl err) \<Rightarrow>
               \<lparr>Requests = reqs,
                Diagnostics = AddError ''Error Updating Alert Rule'' (error_text err) [],
                State = Some state\<rparr>
           | (reqs, Inr rule) \<Rightarrow>
               \<lparr>Requests = reqs, Diagnostics = [],
                State = Some (plan
                  \<lparr>arm_ID := Known (ar_ID rule),
                   arm_CreatedAt := Known (ar_CreatedAt rule),
                   arm_UpdatedAt := Known (ar_UpdatedAt rule)\<rparr>)\<rparr>))"

text \<open>\<^verbatim>\<open>strings.Split(s, ":")\<close>: the pieces of \<open>s\<close> between the separators, one more
  than there are separators (the empty string gives one empty piece).\<close>

fun Split :: "string \<Rightarrow> char \<Rightarrow> string list" where
  "Split [] sep = [[]]"
| "Split (ch # cs) sep =
     (if ch = sep then [] # Split cs sep
      else (case Split cs sep of
              p # ps \<Rightarrow> (ch # p) # ps
            | [] \<Rightarrow> [[ch]]))"

text \<open>\<open>ImportState\<close> starts from a response whose state has every attribute null.\<close>

definition alertRuleResourceModel_null :: alertRuleResourceModel where
  "alertRuleResourceModel_null =
     \<lparr>arm_ID = Null, arm_CheckID = Null, arm_Name = Null, arm_Condition = Null,
      arm_NotificationChannelIDs = Null, arm_Enabled = Null, arm_CreatedAt = Null,
      arm_UpdatedAt = Null\<rparr>"

definition alertRuleResource_ImportState :: "string \<Rightarrow> alertRuleResourceModel result" where
  "alertRuleResource_ImportState ident =
     (case Split ident CHR '':'' of
        [checkID, ruleID] \<Rightarrow>
          \<lparr>Requests = [], Diagnostics = [],
           State = Some (alertRuleResourceModel_null
             \<lparr>arm_CheckID := Known checkID, arm_ID := Known ruleID\<rparr>)\<rparr>
      | parts \<Rightarrow>
          \<lparr>Requests = [],
           Diagnostics =
             AddError ''Invalid Import ID''
               ''Expected import ID in format: check_id:rule_id'' [],
           State = Some alertRuleResourceModel_null\<rparr>)"

subsection \<open>Notification channel\<close>

record notificationChannelResourceModel =
  ncm_ID :: "string attr"
  ncm_OrgID :: "string attr"
  ncm_Name :: "string attr"
  ncm_Type :: "string attr"
  ncm_Config :: "(string \<rightharpoonup> string attr) attr"
  ncm_Enabled :: "bool attr"
  ncm_CreatedAt :: "string attr"
  ncm_UpdatedAt :: "string attr"

definition notificationChannelResource_Read ::
  "runtime \<Rightarrow> Client \<Rightarrow> notificationChannelResourceModel
     \<Rightarrow> notificationChannelResourceModel result" where
  "notificationChannelResource_Read rt c state =
     (case GetNotificationChannel rt c (ValueString (ncm_ID state)) of
        (reqs, Inl err) \<Rightarrow>
          \<lparr>Requests = reqs,
           Diagnostics = AddError ''Error Reading Notification Channel'' (error_text err) [],
           State = Some state\<rparr>
      | (reqs, Inr channel) \<Rightarrow>
          \<lparr>Requests = reqs, Diagnostics = [],
           State = Some (state
             \<lparr>ncm_OrgID := Known (nc_OrgID channel),
              ncm_Name := Known (nc_Name channel),
              ncm_Type := Known (nc_Type channel),
              ncm_Enabled := Known (nc_Enabled channel),
              ncm_CreatedAt := Known (nc_CreatedAt channel),
              ncm_UpdatedAt := Known (nc_UpdatedAt channel)\<rparr>)\<rparr>)"

subsection \<open>Signup\<close>

record signupResourceModel =
  sm_ID :: "string attr"
  sm_Email :: "string attr"
  sm_OrgName :: "string attr"
  sm_OrgID :: "string attr"
  sm_APIKey :: "string attr"
  sm_VerificationRequired :: "bool attr"

definition signupResource_Create ::
  "runtime \<Rightarrow> string \<Rightarrow> signupResourceModel \<Rightarrow> signupResourceModel result" where
  "signupResource_Create rt baseURL plan =
     (case QuickSignup rt baseURL
             \<lparr>qsr_Email = ValueString (sm_Email plan),
              qsr_OrgName = ValueString (sm_OrgName plan)\<rparr> of
        (reqs, Inl err) \<Rightarrow>
          \<lparr>Requests = reqs,
           Diagnostics = AddError ''Error creating signup'' (error_text err) [],
           State = None\<rparr>
      | (reqs, Inr signupResp) \<Rightarrow>
          \<lparr>Requests = reqs, Diagnostics = [],
           State = Some (plan
             \<lparr>sm_ID := Known (qs_OrgID signupResp),
              sm_OrgID := Known (qs_OrgID signupResp),
              sm_APIKey := Known (qs_APIKey signupResp),
              sm_VerificationRequired := Known (qs_VerificationRequired signupResp)\<rparr>)\<rparr>)"

text \<open>\<open>Delete\<close> reads the state into its model and returns: the body of the function
  after that is a comment. It runs on the same runtime and base URL as \<open>Create\<close>.\<close>

definition signupResource_Delete ::
  "runtime \<Rightarrow> string \<Rightarrow> signupResourceModel \<Rightarrow> signupResourceModel result" where
  "signupResource_Delete rt baseURL state =
     \<lparr>Requests = [], Diagnostics = [], State = Some state\<rparr>"

section \<open>The provider\<close>

subsection \<open>The key of a signup in a local state file\<close>

record tf_instance =
  inst_Attributes :: gomap

record tf_resource =
  res_Type :: string
  res_Name :: string
  res_Instances :: "tf_instance list"

record TerraformState =
  ts_Version :: int
  ts_Resources :: "tf_resource list"

text \<open>The file system the provider runs on: whether \<^verbatim>\<open>os.Stat\<close> succeeds on a path,
  \<^verbatim>\<open>filepath.Abs\<close>, \<^verbatim>\<open>os.ReadFile\<close> (\<open>None\<close> its error) and \<^verbatim>\<open>json.Unmarshal\<close> into a
  \<^verbatim>\<open>TerraformState\<close> (\<open>None\<close> its error). The operations on files are recorded.\<close>

record filesystem =
  Stat_ok :: "string \<Rightarrow> bool"
  Abs :: "string \<Rightarrow> string"
  ReadFile :: "string \<Rightarrow> string option"
  Unmarshal_TerraformState :: "string \<Rightarrow> TerraformState option"

datatype file_op = OpStat string | OpReadFile string

fun findStateFile_from :: "filesystem \<Rightarrow> string list \<Rightarrow> file_op list \<times> string" where
  "findStateFile_from fs [] = ([], [])"
| "findStateFile_from fs (candidate # rest) =
     (if Stat_ok fs candidate then ([OpStat candidate], Abs fs candidate)
      else (case findStateFile_from fs rest of
              (ops, found) \<Rightarrow> (OpStat candidate # ops, found)))"

definition findStateFile :: "filesystem \<Rightarrow> file_op list \<times> string" where
  "findStateFile fs =
     findStateFile_from fs [''terraform.tfstate'', ''.terraform/terraform.tfstate'']"

definition state_key_warning :: "string \<Rightarrow> string" where
  "state_key_warning statePath =
     ''Using API key from terraform state ('' @ statePath @ '').'' @ [CHR 0x0A, CHR 0x0A]
     @ [CHR 0xF0, CHR 0x9F, CHR 0x92, CHR 0xA1]
     @ '' Tip: For future runs, export the key:'' @ [CHR 0x0A]
     @ ''   export QUISMON_API_KEY=$(terraform output -raw api_key)'' @ [CHR 0x0A, CHR 0x0A]
     @ [CHR 0xF0, CHR 0x9F, CHR 0x93, CHR 0xA7]
     @ '' Verify your email to increase your free tier check frequency from 20/hr to 60/hr!''"

text \<open>The loop over the resources of the state: the first resource of type
  \<^verbatim>\<open>quismon_signup\<close> whose first instance has a non-empty string under \<^verbatim>\<open>api_key\<close>.\<close>

fun signup_key :: "string \<Rightarrow> tf_resource list \<Rightarrow> string \<times> string" where
  "signup_key statePath [] = ([], [])"
| "signup_key statePath (r # rest) =
     (if res_Type r = ''quismon_signup'' \<and> length (res_Instances r) > 0
      then (case inst_Attributes (hd (res_Instances r)) of
              Some attrs \<Rightarrow>
                (case attrs ''api_key'' of
                   Some (JString key) \<Rightarrow>
                     if key \<noteq> [] then (key, state_key_warning statePath)
                     else signup_key statePath rest
                 | _ \<Rightarrow> signup_key statePath rest)
            | None \<Rightarrow> signup_key statePath rest)
      else signup_key statePath rest)"

definition readAPIKeyFromState :: "filesystem \<Rightarrow> file_op list \<times> string \<times> string" where
  "readAPIKeyFromState fs =
     (case findStateFile fs of
        (ops, statePath) \<Rightarrow>
          if statePath = [] then (ops, [], [])
          else (case ReadFile fs statePath of
                  None \<Rightarrow> (ops @ [OpReadFile statePath], [], [])
                | Some data \<Rightarrow>
                    (case Unmarshal_TerraformState fs data of
                       None \<Rightarrow> (ops @ [OpReadFile statePath], [], [])
                     | Some state \<Rightarrow>
                         (ops @ [OpReadFile statePath],
                          signup_key statePath (ts_Resources state)))))"

subsection \<open>\<open>Configure\<close>\<close>

record quismonProviderModel =
  pm_APIKey :: "string attr"
  pm_BaseURL :: "string attr"

text \<open>\<^verbatim>\<open>os.Getenv\<close> of the two variables: the empty string when a variable is not set.\<close>

record environment =
  QUISMON_API_KEY :: string
  QUISMON_BASE_URL :: string

record configure_response =
  cfg_Diagnostics :: "diagnostic list"
  cfg_ResourceData :: "Client option"
  cfg_FileOps :: "file_op list"

definition unknown_key_detail :: string where
  "unknown_key_detail =
     ''The provider cannot create the Quismon API client as there is an unknown configuration value for the API key. ''
     @ ''Either target apply the source of the value first, set the value statically in the configuration, or use the QUISMON_API_KEY environment variable.''"

definition unknown_url_detail :: string where
  "unknown_url_detail =
     ''The provider cannot create the Quismon API client as there is an unknown configuration value for the base URL. ''
     @ ''Either target apply the source of the value first, set the value statically in the configuration, or use the QUISMON_BASE_URL environment variable.''"

text \<open>\<open>Configure\<close> after the tests for unknown values: the key and the URL from the
  environment, replaced by a configured value that is not null; the default URL; the
  state file when the key is empty; the client.\<close>

definition Configure_resolve ::
  "environment \<Rightarrow> filesystem \<Rightarrow> quismonProviderModel \<Rightarrow> configure_response" where
  "Configure_resolve env fs config =
     (let apiKey = (if \<not> IsNull (pm_APIKey config) then ValueString (pm_APIKey config)
                    else QUISMON_API_KEY env);
          baseURL = (if \<not> IsNull (pm_BaseURL config) then ValueString (pm_BaseURL config)
                     else QUISMON_BASE_URL env);
          baseURL = (if baseURL = [] then ''https://api.quismon.com'' else baseURL);
          (ops, apiKey, diags) =
            (if apiKey = []
             then (case readAPIKeyFromState fs of
                     (ops, stateKey, warning) \<Rightarrow>
                       if stateKey \<noteq> []
                       then (ops, stateKey,
                             AddWarning ''API Key Read from Terraform State'' warning [])
                       else (ops, apiKey, []))
             else ([], apiKey, []))
      in case New baseURL apiKey of
           Inl err \<Rightarrow>
             \<lparr>cfg_Diagnostics =
                AddError ''Unable to Create Quismon API Client''
                  (''An unexpected error occurred when creating the Quismon API client. ''
                   @ ''If the error is not clear, please contact the provider developers.''
                   @ [CHR 0x0A, CHR 0x0A] @ ''Quismon Client Error: '' @ error_text err) diags,
              cfg_ResourceData = None, cfg_FileOps = ops\<rparr>
         | Inr c \<Rightarrow>
             \<lparr>cfg_Diagnostics = diags, cfg_ResourceData = Some c, cfg_FileOps = ops\<rparr>)"

definition Configure ::
  "environment \<Rightarrow> filesystem \<Rightarrow> quismonProviderModel \<Rightarrow> configure_response" where
  "Configure env fs config =
     (let d1 = (if IsUnknown (pm_APIKey config)
                then AddAttributeError ''api_key'' ''Unknown Quismon API Key''
                       unknown_key_detail []
                else []);
          d2 = (if IsUnknown (pm_BaseURL config)
                then AddAttributeError ''base_url'' ''Unknown Quismon Base URL''
                       unknown_url_detail d1
                else d1)
      in if HasError d2
         then \<lparr>cfg_Diagnostics = d2, cfg_ResourceData = None, cfg_FileOps = []\<rparr>
         else Configure_resolve env fs config)"

section \<open>Concrete inputs\<close>

text \<open>A decoder of envelopes that knows four bodies, and a runtime that answers every
  request with one given round trip.\<close>

definition example_envelope :: "string \<Rightarrow> string + APIResponse" where
  \<open>example_envelope s =
     (if s = ''{}'' then Inr \<lparr>Data = None, Error = None, Meta = None\<rparr>
      else if s = ''{"error":"check not found"}''
      then Inr \<lparr>Data = None, Error = Some ''check not found'', Meta = None\<rparr>
      else if s = ''{"data":{"id":"x1"}}''
      then Inr \<lparr>Data = Some ''{"id":"x1"}'', Error = None, Meta = None\<rparr>
      else if s = ''{"data":{"id":"x1"},"error":"quota exceeded"}''
      then Inr \<lparr>Data = Some ''{"id":"x1"}'', Error = Some ''quota exceeded'', Meta = None\<rparr>
      else Inl ''invalid character'')\<close>

definition example_map :: "string \<Rightarrow> string + gomap" where
  \<open>example_map s =
     (if s = ''{"url":"https://x","method":"GET"}''
      then Inr (Some [''url'' \<mapsto> JString ''https://x'', ''method'' \<mapsto> JString ''GET''])
      else Inl ''invalid character'')\<close>

definition example_runtime :: "roundtrip \<Rightarrow> runtime" where
  "example_runtime answer =
     \<lparr>NewRequest_error = (\<lambda>method url. None),
      Do = (\<lambda>req. answer),
      Unmarshal_APIResponse = example_envelope,
      Unmarshal_Check = (\<lambda>raw v. Inr (v\<lparr>chk_ID := ''x1'', chk_OrgID := ''o1''\<rparr>)),
      Unmarshal_AlertRule = (\<lambda>raw v. Inr (v\<lparr>ar_ID := ''x1''\<rparr>)),
      Unmarshal_NotificationChannel =
        (\<lambda>raw v. Inr (v\<lparr>nc_ID := ''x1'', nc_OrgID := ''o1'', nc_Name := ''ops'',
                          nc_Type := ''webhook'',
                          nc_Config := Some [''token'' \<mapsto> JString ''***''],
                          nc_Enabled := True\<rparr>)),
      Unmarshal_map = example_map,
      Unmarshal_QuickSignupResponse = (\<lambda>raw v. Inr v)\<rparr>"

definition example_client :: Client where
  "example_client = \<lparr>BaseURL = ''https://api.quismon.com'', APIKey = ''key''\<rparr>"

definition example_check :: checkResourceModel where
  "example_check =
     \<lparr>crm_ID = Known ''c1'', crm_OrgID = Known ''o1'', crm_Name = Known ''api'',
      crm_Type = Known ''https'', crm_Config = Null, crm_ConfigJSON = Null,
      crm_IntervalSeconds = Known 60, crm_Regions = Known [Known ''na-east-ewr''],
      crm_Enabled = Known True, crm_SimultaneousRegions = Known False,
      crm_RecheckOnFailure = Known False, crm_IaCLocked = Known False,
      crm_HealthStatus = Known ''healthy'', crm_LastChecked = Null,
      crm_CreatedAt = Known ''t0'', crm_UpdatedAt = Known ''t0''\<rparr>"

definition example_check_both :: checkResourceModel where
  \<open>example_check_both =
     example_check
       \<lparr>crm_Config := Known [''url'' \<mapsto> Known ''https://other'', ''timeout'' \<mapsto> Known ''5''],
        crm_ConfigJSON := Known ''{"url":"https://x","method":"GET"}''\<rparr>\<close>

definition example_rule :: alertRuleResourceModel where
  "example_rule =
     \<lparr>arm_ID = Known ''r1'', arm_CheckID = Known ''c1'', arm_Name = Known ''down'',
      arm_Condition = Known [''health_status'' \<mapsto> Known ''down''],
      arm_NotificationChannelIDs = Known [Known ''n1''], arm_Enabled = Known True,
      arm_CreatedAt = Known ''t0'', arm_UpdatedAt = Known ''t0''\<rparr>"

definition example_rule_plan :: alertRuleResourceModel where
  "example_rule_plan =
     example_rule\<lparr>arm_Condition := Known [''health_status'' \<mapsto> Known ''degraded'']\<rparr>"

text \<open>A rule that is disabled, and a plan for it that renames it and leaves
  \<^verbatim>\<open>enabled\<close> to the provider.\<close>

definition example_rule_disabled :: alertRuleResourceModel where
  "example_rule_disabled = example_rule\<lparr>arm_Enabled := Known False\<rparr>"

definition example_rule_renamed :: alertRuleResourceModel where
  "example_rule_renamed =
     example_rule\<lparr>arm_Name := Known ''outage'', arm_Enabled := Unknown\<rparr>"

definition example_channel :: notificationChannelResourceModel where
  "example_channel =
     \<lparr>ncm_ID = Known ''n0'', ncm_OrgID = Known ''o0'', ncm_Name = Known ''pager'',
      ncm_Type = Known ''webhook'', ncm_Config = Known [''token'' \<mapsto> Known ''secret''],
      ncm_Enabled = Known False, ncm_CreatedAt = Known ''t0'', ncm_UpdatedAt = Known ''t0''\<rparr>"

text \<open>A working directory whose \<^verbatim>\<open>terraform.tfstate\<close> holds one signup with a key.\<close>

definition example_fs :: filesystem where
  "example_fs =
     \<lparr>Stat_ok = (\<lambda>p. p = ''terraform.tfstate''),
      Abs = (\<lambda>p. ''/work/'' @ p),
      ReadFile = (\<lambda>p. if p = ''/work/terraform.tfstate'' then Some ''state'' else None),
      Unmarshal_TerraformState =
        (\<lambda>d. if d = ''state''
              then Some \<lparr>ts_Version = 4,
                         ts_Resources =
                           [\<lparr>res_Type = ''quismon_signup'', res_Name = ''main'',
                             res_Instances =
                               [\<lparr>inst_Attributes =
                                   Some [''api_key'' \<mapsto> JString ''state-key'']\<rparr>]\<rparr>]\<rparr>
              else None)\<rparr>"

definition example_signup :: signupResourceModel where
  "example_signup =
     \<lparr>sm_ID = Known ''o1'', sm_Email = Known ''ops@example.com'', sm_OrgName = Null,
      sm_OrgID = Known ''o1'', sm_APIKey = Known ''state-key'',
      sm_VerificationRequired = Known True\<rparr>"

text \<open>What a request body holds under a key, when the body is an object.\<close>

definition body_field :: "http_request \<Rightarrow> string \<Rightarrow> json option" where
  "body_field req k = (case Body req of Some (JObject m) \<Rightarrow> m k | _ \<Rightarrow> None)"


section \<open>Properties of the client\<close>

lemma itoa_404: "itoa 404 = ''404''"
  by (simp add: itoa_def decimal.simps digit_char_def)

lemma itoa_500: "itoa 500 = ''500''"
  by (simp add: itoa_def decimal.simps digit_char_def)

lemma unwrap_error [simp]: "unwrap rt dec zero (reqs, Inl err) = (reqs, Inl err)"
  by (simp add: unwrap_def)

lemma unwrap_data [simp]:
  "unwrap rt dec zero (reqs, Inr data) = (reqs, UnmarshalAPIResponse rt dec data zero)"
  by (simp add: unwrap_def)

text \<open>The message of the error that \<open>DoRequest\<close> builds for a status of 400 or more.\<close>

lemma DoRequest_status:
  assumes "NewRequest_error rt method (BaseURL c @ path) = None"
    and "Do rt \<lparr>Method = method, URL = BaseURL c @ path, Header = request_headers c,
                 Body = body\<rparr> = Response status bodyBytes"
  shows "DoRequest rt c method path body =
           ([\<lparr>Method = method, URL = BaseURL c @ path, Header = request_headers c,
              Body = body\<rparr>],
            if status \<ge> 400
            then Inl (APIError status
                   (case Unmarshal_APIResponse rt bodyBytes of
                      Inr apiResp \<Rightarrow> (case Error apiResp of Some msg \<Rightarrow> msg | None \<Rightarrow> bodyBytes)
                    | Inl e \<Rightarrow> bodyBytes))
            else Inr bodyBytes)"
  using assms by (simp add: DoRequest_def Let_def split: sum.splits option.splits)

text \<open>
  C10. \<open>UnmarshalAPIResponse\<close>, by the tests it makes in their order: a payload that
  does not decode to an envelope is an error; an envelope whose \<^verbatim>\<open>error\<close> is not null
  is an error that carries this message, whatever else the envelope holds, and so is
  the answer of a client operation whose HTTP status was below 400; an envelope with
  neither \<^verbatim>\<open>error\<close> nor \<^verbatim>\<open>data\<close> is a success that returns the output value as it was
  passed in, so that a client operation answered with such an envelope returns the
  zero value of its entity.
\<close>

theorem UnmarshalAPIResponse_envelope:
  "(Unmarshal_APIResponse rt data = Inl e \<longrightarrow>
      UnmarshalAPIResponse rt dec data v = Inl (UnmarshalResponseError e))
   \<and> (Unmarshal_APIResponse rt data = Inr env \<and> Error env = Some msg \<longrightarrow>
      UnmarshalAPIResponse rt dec data v = Inl (EnvelopeError msg)
      \<and> error_text (EnvelopeError msg) = ''API error: '' @ msg
      \<and> (NewRequest_error rt ''GET'' (BaseURL c @ ''/v1/checks/'' @ ident) = None
         \<and> Do rt \<lparr>Method = ''GET'', URL = BaseURL c @ ''/v1/checks/'' @ ident,
                  Header = request_headers c, Body = None\<rparr> = Response status data
         \<and> status < 400 \<longrightarrow>
         snd (GetCheck rt c ident) = Inl (EnvelopeError msg)))
   \<and> (Unmarshal_APIResponse rt data = Inr env \<and> Error env = None \<and> Data env = None \<longrightarrow>
      UnmarshalAPIResponse rt dec data v = Inr v
      \<and> (NewRequest_error rt ''GET'' (BaseURL c @ ''/v1/checks/'' @ ident) = None
         \<and> Do rt \<lparr>Method = ''GET'', URL = BaseURL c @ ''/v1/checks/'' @ ident,
                  Header = request_headers c, Body = None\<rparr> = Response status data
         \<and> status < 400 \<longrightarrow>
         snd (GetCheck rt c ident) = Inr Check_zero))"
proof (intro conjI impI)
  assume "Unmarshal_APIResponse rt data = Inl e"
  then show "UnmarshalAPIResponse rt dec data v = Inl (UnmarshalResponseError e)"
    by (simp add: UnmarshalAPIResponse_def)
next
  assume h: "Unmarshal_APIResponse rt data = Inr env \<and> Error env = Some msg"
  then show "UnmarshalAPIResponse rt dec data v = Inl (EnvelopeError msg)"
    by (simp add: UnmarshalAPIResponse_def)
  show "error_text (EnvelopeError msg) = ''API error: '' @ msg"
    by simp
  assume "NewRequest_error rt ''GET'' (BaseURL c @ ''/v1/checks/'' @ ident) = None
         \<and> Do rt \<lparr>Method = ''GET'', URL = BaseURL c @ ''/v1/checks/'' @ ident,
                  Header = request_headers c, Body = None\<rparr> = Response status data
         \<and> status < 400"
  then have "DoRequest rt c ''GET'' (''/v1/checks/'' @ ident) None =
      ([\<lparr>Method = ''GET'', URL = BaseURL c @ ''/v1/checks/'' @ ident,
         Header = request_headers c, Body = None\<rparr>], Inr data)"
    by (simp add: DoRequest_status)
  with h show "snd (GetCheck rt c ident) = Inl (EnvelopeError msg)"
    by (simp add: GetCheck_def UnmarshalAPIResponse_def)
next
  assume h: "Unmarshal_APIResponse rt data = Inr env \<and> Error env = None \<and> Data env = None"
  then show "UnmarshalAPIResponse rt dec data v = Inr v"
    by (simp add: UnmarshalAPIResponse_def)
  assume "NewRequest_error rt ''GET'' (BaseURL c @ ''/v1/checks/'' @ ident) = None
         \<and> Do rt \<lparr>Method = ''GET'', URL = BaseURL c @ ''/v1/checks/'' @ ident,
                  Header = request_headers c, Body = None\<rparr> = Response status data
         \<and> status < 400"
  then have "DoRequest rt c ''GET'' (''/v1/checks/'' @ ident) None =
      ([\<lparr>Method = ''GET'', URL = BaseURL c @ ''/v1/checks/'' @ ident,
         Header = request_headers c, Body = None\<rparr>], Inr data)"
    by (simp add: DoRequest_status)
  with h show "snd (GetCheck rt c ident) = Inr Check_zero"
    by (simp add: GetCheck_def UnmarshalAPIResponse_def)
qed

theorem UnmarshalAPIResponse_envelope_witness:
  \<open>snd (GetCheck (example_runtime (Response 200 ''not json'')) example_client ''c1'')
     = Inl (UnmarshalResponseError ''invalid character'')
   \<and> snd (GetCheck (example_runtime
              (Response 200 ''{"data":{"id":"x1"},"error":"quota exceeded"}''))
            example_client ''c1'')
     = Inl (EnvelopeError ''quota exceeded'')
   \<and> snd (GetCheck (example_runtime (Response 200 ''{}'')) example_client ''c1'')
     = Inr Check_zero\<close>
proof (intro conjI)
  let ?rt = "example_runtime (Response 200 ''not json'')"
  show "snd (GetCheck ?rt example_client ''c1'')
          = Inl (UnmarshalResponseError ''invalid character'')"
    using UnmarshalAPIResponse_envelope
            [where rt = ?rt and data = "''not json''" and e = "''invalid character''"
               and dec = "Unmarshal_Check ?rt" and v = Check_zero
               and env = "\<lparr>Data = None, Error = None, Meta = None\<rparr>" and msg = "[]"
               and c = example_client and ident = "''c1''" and status = 200]
    by (simp add: GetCheck_def DoRequest_def example_runtime_def example_envelope_def)
next
  let ?body = \<open>''{"data":{"id":"x1"},"error":"quota exceeded"}''\<close>
  let ?rt = "example_runtime (Response 200 ?body)"
  show "snd (GetCheck ?rt example_client ''c1'') = Inl (EnvelopeError ''quota exceeded'')"
    using UnmarshalAPIResponse_envelope
            [where rt = ?rt and data = ?body and msg = "''quota exceeded''"
               and env = "\<lparr>Data = Some ''{\"id\":\"x1\"}'', Error = Some ''quota exceeded'',
                           Meta = None\<rparr>"
               and c = example_client and ident = "''c1''" and status = 200
               and dec = "Unmarshal_Check ?rt" and v = Check_zero]
    by (simp add: example_runtime_def example_envelope_def)
next
  let ?rt = "example_runtime (Response 200 ''{}'')"
  show "snd (GetCheck ?rt example_client ''c1'') = Inr Check_zero"
    using UnmarshalAPIResponse_envelope
            [where rt = ?rt and data = "''{}''"
               and env = "\<lparr>Data = None, Error = None, Meta = None\<rparr>"
               and c = example_client and ident = "''c1''" and status = 200
               and dec = "Unmarshal_Check ?rt" and v = Check_zero]
    by (simp add: example_runtime_def example_envelope_def)
qed

text \<open>
  C1 (as amended). For every Check Read, when the remote API answers the check-read
  request with a status of 400 or more, 404 included, \<open>DoRequest\<close> and \<open>GetCheck\<close> return
  the one generic API error, which carries the status code and the message (the
  \<^verbatim>\<open>error\<close> string of the envelope when the body decodes to one that has it, else the
  raw body); \<open>Read\<close> reports it in a single error diagnostic "Error Reading Check" and
  leaves the state as it was. No status has an error kind of its own: a 404 is told
  from another status only by the code the error carries.
\<close>

theorem checkResource_Read_error_status:
  assumes "NewRequest_error rt ''GET'' (BaseURL c @ ''/v1/checks/'' @ ValueString (crm_ID state))
             = None"
    and "Do rt \<lparr>Method = ''GET'', URL = BaseURL c @ ''/v1/checks/'' @ ValueString (crm_ID state),
                 Header = request_headers c, Body = None\<rparr> = Response status bodyBytes"
    and "status \<ge> 400"
    and "msg = (case Unmarshal_APIResponse rt bodyBytes of
                  Inr apiResp \<Rightarrow> (case Error apiResp of Some m \<Rightarrow> m | None \<Rightarrow> bodyBytes)
                | Inl e \<Rightarrow> bodyBytes)"
  shows "snd (DoRequest rt c ''GET'' (''/v1/checks/'' @ ValueString (crm_ID state)) None)
           = Inl (APIError status msg)
       \<and> snd (GetCheck rt c (ValueString (crm_ID state))) = Inl (APIError status msg)
       \<and> is_APIError (APIError status msg)
       \<and> Diagnostics (checkResource_Read rt c state) =
           [\<lparr>Severity = SeverityError, Summary = ''Error Reading Check'',
             Detail = ''Could not read check ID '' @ ValueString (crm_ID state)
                      @ '': API error ('' @ itoa status @ ''): '' @ msg,
             AttributePath = None\<rparr>]
       \<and> State (checkResource_Read rt c state) = Some state"
proof -
  have d: "DoRequest rt c ''GET'' (''/v1/checks/'' @ ValueString (crm_ID state)) None =
      ([\<lparr>Method = ''GET'', URL = BaseURL c @ ''/v1/checks/'' @ ValueString (crm_ID state),
         Header = request_headers c, Body = None\<rparr>], Inl (APIError status msg))"
    using assms by (simp add: DoRequest_status)
  then have g: "GetCheck rt c (ValueString (crm_ID state)) =
      ([\<lparr>Method = ''GET'', URL = BaseURL c @ ''/v1/checks/'' @ ValueString (crm_ID state),
         Header = request_headers c, Body = None\<rparr>], Inl (APIError status msg))"
    by (simp add: GetCheck_def)
  show ?thesis
    using d g by (simp add: checkResource_Read_def AddError_def)
qed

theorem checkResource_Read_error_status_witness:
  \<open>snd (GetCheck (example_runtime (Response 404 ''{"error":"check not found"}''))
          example_client ''c1'') = Inl (APIError 404 ''check not found'')
   \<and> State (checkResource_Read (example_runtime (Response 404 ''{"error":"check not found"}''))
          example_client example_check) = Some example_check\<close>
  using checkResource_Read_error_status
          [where rt = \<open>example_runtime (Response 404 ''{"error":"check not found"}'')\<close>
             and c = example_client and state = example_check and status = 404
             and bodyBytes = \<open>''{"error":"check not found"}''\<close>
             and msg = "''check not found''"]
  by (simp add: example_runtime_def example_envelope_def example_check_def)

text \<open>
  The claim as it stands fails: a 404 answer to the read of check \<open>c1\<close> comes back as
  the generic API error, built as the answer with status 500 is, and \<open>Read\<close> reports
  both under the same summary.
\<close>

theorem checkResource_Read_404_counterexample:
  \<open>snd (GetCheck (example_runtime (Response 404 ''{"error":"check not found"}''))
          example_client ''c1'') = Inl (APIError 404 ''check not found'')
   \<and> snd (GetCheck (example_runtime (Response 500 ''{"error":"check not found"}''))
          example_client ''c1'') = Inl (APIError 500 ''check not found'')
   \<and> is_APIError (APIError 404 ''check not found'')
   \<and> Diagnostics (checkResource_Read
          (example_runtime (Response 404 ''{"error":"check not found"}''))
          example_client example_check) =
       [\<lparr>Severity = SeverityError, Summary = ''Error Reading Check'',
         Detail = ''Could not read check ID c1: API error (404): check not found'',
         AttributePath = None\<rparr>]
   \<and> Diagnostics (checkResource_Read
          (example_runtime (Response 500 ''{"error":"check not found"}''))
          example_client example_check) =
       [\<lparr>Severity = SeverityError, Summary = ''Error Reading Check'',
         Detail = ''Could not read check ID c1: API error (500): check not found'',
         AttributePath = None\<rparr>]\<close>
  by (simp add: checkResource_Read_def GetCheck_def DoRequest_def example_runtime_def
        example_envelope_def example_check_def AddError_def itoa_404 itoa_500)

lemma DoRequest_sent:
  assumes "req \<in> set (fst (DoRequest rt c method path body))"
  shows "Method req = method \<and> URL req = BaseURL c @ path \<and> Body req = body"
  using assms
  by (auto simp: DoRequest_def Let_def split: option.splits roundtrip.splits sum.splits if_splits)

lemma DoRequest_requests:
  "fst (DoRequest rt c method path body) =
     (case NewRequest_error rt method (BaseURL c @ path) of
        Some e \<Rightarrow> []
      | None \<Rightarrow> [\<lparr>Method = method, URL = BaseURL c @ path,
                   Header = request_headers c, Body = body\<rparr>])"
  by (simp add: DoRequest_def Let_def split: option.splits roundtrip.splits sum.splits)

lemma unwrap_requests [simp]: "fst (unwrap rt dec zero r) = fst r"
  by (cases r) (auto simp: unwrap_def split: sum.splits)

section \<open>Properties of the Check resource\<close>

text \<open>
  C2. \<open>Update\<close> on a plan with neither a config map nor a \<^verbatim>\<open>config_json\<close>: where
  \<open>Create\<close> stops with "Missing Configuration" and sends nothing, \<open>Update\<close> reports
  nothing and sends the update request, with \<^verbatim>\<open>null\<close> as the config.
\<close>

theorem checkResource_Update_missing_config:
  \<open>crm_Config example_check = Null \<and> crm_ConfigJSON example_check = Null
   \<and> map Method (Requests (checkResource_Update
            (example_runtime (Response 200 ''{"data":{"id":"x1"}}''))
            example_client example_check example_check)) = [''PUT'']
   \<and> map URL (Requests (checkResource_Update
            (example_runtime (Response 200 ''{"data":{"id":"x1"}}''))
            example_client example_check example_check))
       = [''https://api.quismon.com/v1/checks/c1'']
   \<and> map (\<lambda>r. body_field r ''config'') (Requests (checkResource_Update
            (example_runtime (Response 200 ''{"data":{"id":"x1"}}''))
            example_client example_check example_check)) = [Some JNull]
   \<and> Diagnostics (checkResource_Update
            (example_runtime (Response 200 ''{"data":{"id":"x1"}}''))
            example_client example_check example_check) = []
   \<and> Requests (checkResource_Create
            (example_runtime (Response 200 ''{"data":{"id":"x1"}}''))
            example_client example_check) = []
   \<and> Diagnostics (checkResource_Create
            (example_runtime (Response 200 ''{"data":{"id":"x1"}}''))
            example_client example_check) =
       [\<lparr>Severity = SeverityError, Summary = ''Missing Configuration'',
         Detail = ''Either 'config' or 'config_json' must be specified'',
         AttributePath = None\<rparr>]\<close>
  by (simp add: checkResource_Update_def checkResource_Update_submit_def
        checkResource_Create_def UpdateCheck_def DoRequest_def UnmarshalAPIResponse_def
        checkResource_updateReq_def marshal_UpdateCheckRequest_def omitempty_def body_field_def
        example_runtime_def example_envelope_def example_check_def example_client_def
        AddError_def Let_def)

lemma checkResource_Create_submit_requests:
  "Requests (checkResource_Create_submit rt c plan configMap) =
     (case ElementsAs (crm_Regions plan) of
        Inl diags \<Rightarrow> []
      | Inr regions \<Rightarrow>
          fst (DoRequest rt c ''POST'' ''/v1/checks''
                 (Some (marshal_CreateCheckRequest
                          (checkResource_createReq plan configMap regions)))))"
proof (cases "ElementsAs (crm_Regions plan)")
  case (Inl diags)
  then show ?thesis by (simp add: checkResource_Create_submit_def)
next
  case (Inr regions)
  obtain reqs r where cc:
    "CreateCheck rt c (checkResource_createReq plan configMap regions) = (reqs, r)"
    by (cases "CreateCheck rt c (checkResource_createReq plan configMap regions)")
  then have "reqs = fst (DoRequest rt c ''POST'' ''/v1/checks''
                 (Some (marshal_CreateCheckRequest
                          (checkResource_createReq plan configMap regions))))"
    by (metis CreateCheck_def fst_conv unwrap_requests)
  with Inr cc show ?thesis
    by (cases r) (simp_all add: checkResource_Create_submit_def)
qed

text \<open>
  C4. A creation plan whose \<^verbatim>\<open>config_json\<close> is known and not empty, whatever its
  config map holds. When the JSON does not parse no request is sent. When it parses,
  the regions convert and the request can be built, exactly one request is sent, the
  POST of the creation request whose config is the parsed map. The config of every
  request sent is the parsed map, and the requests are those of the same plan with
  any other config map in place of its own, so that no entry of the config map
  reaches the request.
\<close>

theorem checkResource_Create_config_json_wins:
  assumes "crm_ConfigJSON plan = Known s" and "s \<noteq> []"
  shows "(\<forall>e. Unmarshal_map rt s = Inl e \<longrightarrow> Requests (checkResource_Create rt c plan) = [])
       \<and> (\<forall>parsed regions.
             Unmarshal_map rt s = Inr parsed
             \<and> ElementsAs (crm_Regions plan) = Inr regions
             \<and> NewRequest_error rt ''POST'' (BaseURL c @ ''/v1/checks'') = None
            \<longrightarrow> Requests (checkResource_Create rt c plan) =
                  [\<lparr>Method = ''POST'', URL = BaseURL c @ ''/v1/checks'',
                    Header = request_headers c,
                    Body = Some (marshal_CreateCheckRequest
                                   (checkResource_createReq plan parsed regions))\<rparr>]
                \<and> map (\<lambda>r. body_field r ''config'') (Requests (checkResource_Create rt c plan))
                    = [Some (json_of_gomap parsed)])
       \<and> (\<forall>parsed req. Unmarshal_map rt s = Inr parsed
              \<and> req \<in> set (Requests (checkResource_Create rt c plan))
            \<longrightarrow> body_field req ''config'' = Some (json_of_gomap parsed))
       \<and> (\<forall>cfg. Requests (checkResource_Create rt c (plan\<lparr>crm_Config := cfg\<rparr>))
                 = Requests (checkResource_Create rt c plan))"
proof (intro conjI allI impI)
  fix e assume "Unmarshal_map rt s = Inl e"
  with assms show "Requests (checkResource_Create rt c plan) = []"
    by (simp add: checkResource_Create_def)
next
  fix parsed regions
  assume h: "Unmarshal_map rt s = Inr parsed
             \<and> ElementsAs (crm_Regions plan) = Inr regions
             \<and> NewRequest_error rt ''POST'' (BaseURL c @ ''/v1/checks'') = None"
  then have u: "Unmarshal_map rt s = Inr parsed"
    and r: "ElementsAs (crm_Regions plan) = Inr regions"
    and n: "NewRequest_error rt ''POST'' (BaseURL c @ ''/v1/checks'') = None"
    by simp_all
  from assms u have "Requests (checkResource_Create rt c plan)
                       = Requests (checkResource_Create_submit rt c plan parsed)"
    by (simp add: checkResource_Create_def)
  with r n show sent: "Requests (checkResource_Create rt c plan) =
                  [\<lparr>Method = ''POST'', URL = BaseURL c @ ''/v1/checks'',
                    Header = request_headers c,
                    Body = Some (marshal_CreateCheckRequest
                                   (checkResource_createReq plan parsed regions))\<rparr>]"
    by (simp add: checkResource_Create_submit_requests DoRequest_requests)
  show "map (\<lambda>r. body_field r ''config'') (Requests (checkResource_Create rt c plan))
          = [Some (json_of_gomap parsed)]"
    unfolding sent
    by (simp add: body_field_def marshal_CreateCheckRequest_def omitempty_def
          checkResource_createReq_def split: option.splits)
next
  fix parsed req
  assume h: "Unmarshal_map rt s = Inr parsed
             \<and> req \<in> set (Requests (checkResource_Create rt c plan))"
  then have u: "Unmarshal_map rt s = Inr parsed"
    and m: "req \<in> set (Requests (checkResource_Create rt c plan))"
    by simp_all
  from m assms u have "req \<in> set (Requests (checkResource_Create_submit rt c plan parsed))"
    by (simp add: checkResource_Create_def)
  then obtain regions where
    "req \<in> set (fst (DoRequest rt c ''POST'' ''/v1/checks''
                        (Some (marshal_CreateCheckRequest
                                 (checkResource_createReq plan parsed regions)))))"
    by (auto simp: checkResource_Create_submit_requests split: sum.splits)
  then have "Body req = Some (marshal_CreateCheckRequest
                                (checkResource_createReq plan parsed regions))"
    using DoRequest_sent by blast
  then show "body_field req ''config'' = Some (json_of_gomap parsed)"
    by (simp add: body_field_def marshal_CreateCheckRequest_def omitempty_def
          checkResource_createReq_def split: option.splits)
next
  fix cfg
  have "checkResource_createReq (plan\<lparr>crm_Config := cfg\<rparr>) = checkResource_createReq plan"
    by (simp add: checkResource_createReq_def fun_eq_iff)
  then show "Requests (checkResource_Create rt c (plan\<lparr>crm_Config := cfg\<rparr>))
          = Requests (checkResource_Create rt c plan)"
    using assms
    by (simp add: checkResource_Create_def checkResource_Create_submit_requests
          split: sum.splits)
qed

theorem checkResource_Create_config_json_wins_witness:
  \<open>map (\<lambda>r. body_field r ''config'')
     (Requests (checkResource_Create (example_runtime (Response 200 ''{"data":{"id":"x1"}}''))
                  example_client example_check_both))
   = [Some (JObject [''url'' \<mapsto> JString ''https://x'', ''method'' \<mapsto> JString ''GET''])]
   \<and> map Method
     (Requests (checkResource_Create (example_runtime (Response 200 ''{"data":{"id":"x1"}}''))
                  example_client example_check_both)) = [''POST'']
   \<and> map URL
     (Requests (checkResource_Create (example_runtime (Response 200 ''{"data":{"id":"x1"}}''))
                  example_client example_check_both))
     = [''https://api.quismon.com/v1/checks'']\<close>
proof -
  let ?rt = \<open>example_runtime (Response 200 ''{"data":{"id":"x1"}}'')\<close>
  let ?s = \<open>''{"url":"https://x","method":"GET"}''\<close>
  have cj: "crm_ConfigJSON example_check_both = Known ?s" and ne: "?s \<noteq> []"
    by (simp_all add: example_check_both_def)
  have parsed: "Unmarshal_map ?rt ?s
      = Inr (Some [''url'' \<mapsto> JString ''https://x'', ''method'' \<mapsto> JString ''GET''])"
    by (simp add: example_runtime_def example_map_def)
  have regions: "ElementsAs (crm_Regions example_check_both) = Inr (Some [''na-east-ewr''])"
    by (simp add: example_check_both_def example_check_def)
  have new: "NewRequest_error ?rt ''POST'' (BaseURL example_client @ ''/v1/checks'') = None"
    by (simp add: example_runtime_def)
  from checkResource_Create_config_json_wins [OF cj ne, of ?rt example_client]
       parsed regions new
  have sent: "Requests (checkResource_Create ?rt example_client example_check_both) =
          [\<lparr>Method = ''POST'', URL = BaseURL example_client @ ''/v1/checks'',
            Header = request_headers example_client,
            Body = Some (marshal_CreateCheckRequest
                           (checkResource_createReq example_check_both
                              (Some [''url'' \<mapsto> JString ''https://x'',
                                     ''method'' \<mapsto> JString ''GET''])
                              (Some [''na-east-ewr''])))\<rparr>]"
    and cfg: "map (\<lambda>r. body_field r ''config'')
              (Requests (checkResource_Create ?rt example_client example_check_both))
            = [Some (json_of_gomap (Some [''url'' \<mapsto> JString ''https://x'',
                                          ''method'' \<mapsto> JString ''GET'']))]"
    by blast+
  show ?thesis
  proof (intro conjI)
    show "map (\<lambda>r. body_field r ''config'')
            (Requests (checkResource_Create ?rt example_client example_check_both))
          = [Some (JObject [''url'' \<mapsto> JString ''https://x'', ''method'' \<mapsto> JString ''GET''])]"
      using cfg by simp
    show "map Method (Requests (checkResource_Create ?rt example_client example_check_both))
            = [''POST'']"
      by (simp add: sent)
    show "map URL (Requests (checkResource_Create ?rt example_client example_check_both))
            = [''https://api.quismon.com/v1/checks'']"
      unfolding sent by (simp add: example_client_def)
  qed
qed

text \<open>
  C5 (as amended). The plan-time rule of \<^verbatim>\<open>expires_after_seconds\<close>: a planned value
  that is not null and strictly positive is kept. Otherwise (null, unknown, zero or
  negative) the result is the prior state value when that is not null; when the prior
  state value is null the planned value is returned as it is.
\<close>

theorem PlanModifyInt64_result:
  "(\<not> IsNull plan \<and> 0 < sint (ValueInt64 plan) \<longrightarrow> PlanModifyInt64 plan state = plan)
   \<and> ((IsNull plan \<or> sint (ValueInt64 plan) \<le> 0) \<and> \<not> IsNull state \<longrightarrow>
        PlanModifyInt64 plan state = state)
   \<and> ((IsNull plan \<or> sint (ValueInt64 plan) \<le> 0) \<and> IsNull state \<longrightarrow>
        PlanModifyInt64 plan state = plan)"
  by (auto simp: PlanModifyInt64_def)

theorem PlanModifyInt64_result_witness:
  "PlanModifyInt64 (Known 7200) (Known 3600) = Known 7200
   \<and> PlanModifyInt64 Null (Known 3600) = Known 3600
   \<and> PlanModifyInt64 (Known 0) (Known 3600) = Known 3600
   \<and> PlanModifyInt64 Null Null = Null"
  using PlanModifyInt64_result [of "Known 7200" "Known 3600"]
        PlanModifyInt64_result [of Null "Known 3600"]
        PlanModifyInt64_result [of "Known 0" "Known 3600"]
        PlanModifyInt64_result [of Null Null]
  by simp

text \<open>
  The claim as it stands fails for the null state value: a planned zero is not
  strictly positive, yet it is the result, not the state value.
\<close>

theorem PlanModifyInt64_null_state_counterexample:
  "PlanModifyInt64 (Known 0) Null = Known 0 \<and> Known (0 :: 64 word) \<noteq> Null
   \<and> \<not> 0 < sint (ValueInt64 (Known 0))"
  by (simp add: PlanModifyInt64_def)

section \<open>Properties of the AlertRule resource\<close>

lemma alertRuleResource_Update_requests:
  "Requests (alertRuleResource_Update rt c plan state) =
     (case ElementsAs (arm_NotificationChannelIDs plan) of
        Inl diags \<Rightarrow> []
      | Inr channelIDs \<Rightarrow>
          fst (DoRequest rt c ''PUT''
                 (''/v1/checks/'' @ ValueString (arm_CheckID state) @ ''/alerts/''
                    @ ValueString (arm_ID state))
                 (Some (marshal_UpdateAlertRuleRequest
                          (alertRule_updateReq plan state channelIDs)))))"
proof (cases "ElementsAs (arm_NotificationChannelIDs plan)")
  case (Inl diags)
  then show ?thesis by (simp add: alertRuleResource_Update_def)
next
  case (Inr channelIDs)
  obtain reqs r where u:
    "UpdateAlertRule rt c (ValueString (arm_CheckID state)) (ValueString (arm_ID state))
       (alertRule_updateReq plan state channelIDs) = (reqs, r)"
    by (cases "UpdateAlertRule rt c (ValueString (arm_CheckID state))
                 (ValueString (arm_ID state)) (alertRule_updateReq plan state channelIDs)")
  then have "reqs = fst (DoRequest rt c ''PUT''
                 (''/v1/checks/'' @ ValueString (arm_CheckID state) @ ''/alerts/''
                    @ ValueString (arm_ID state))
                 (Some (marshal_UpdateAlertRuleRequest
                          (alertRule_updateReq plan state channelIDs))))"
    by (metis UpdateAlertRule_def fst_conv unwrap_requests)
  with Inr u show ?thesis
    by (cases r) (simp_all add: alertRuleResource_Update_def)
qed

lemma alertRule_Update_sent:
  assumes "req \<in> set (Requests (alertRuleResource_Update rt c plan state))"
  shows "\<exists>channelIDs.
           Body req = Some (marshal_UpdateAlertRuleRequest
                              (alertRule_updateReq plan state channelIDs))"
proof -
  from assms obtain channelIDs where
    "req \<in> set (fst (DoRequest rt c ''PUT''
        (''/v1/checks/'' @ ValueString (arm_CheckID state) @ ''/alerts/''
           @ ValueString (arm_ID state))
        (Some (marshal_UpdateAlertRuleRequest (alertRule_updateReq plan state channelIDs)))))"
    by (auto simp: alertRuleResource_Update_requests split: sum.splits)
  then show ?thesis using DoRequest_sent by blast
qed

lemma string_elements_known:
  "string_elements (Known [k \<mapsto> Known v]) = [k \<mapsto> JString v]"
  by (auto simp: string_elements_def fun_eq_iff)

text \<open>
  C3 (as amended). An \<open>Update\<close> of an alert rule whose list of channel ids converts
  and whose request can be built sends exactly one request, the PUT to the rule under
  its check; otherwise it sends none. The body of that request holds \<^verbatim>\<open>name\<close> exactly
  when the planned name differs from the name of the prior state as strings (a null
  or unknown attribute reads as the empty string), \<^verbatim>\<open>enabled\<close> exactly when the two
  differ as booleans (a null or unknown attribute reads as false), \<^verbatim>\<open>condition\<close> and
  \<^verbatim>\<open>notification_channel_ids\<close> exactly when the planned attribute differs from the one
  of the prior state; a key that is present carries the planned value, and no other
  key is present. For known names and known \<^verbatim>\<open>enabled\<close> values this is: exactly when
  the planned value differs from the prior one. In particular an unchanged name is
  absent from the body and a changed condition is present.
\<close>

theorem alertRule_Update_patch_body:
  "(\<forall>diags. ElementsAs (arm_NotificationChannelIDs plan) = Inl diags \<longrightarrow>
       Requests (alertRuleResource_Update rt c plan state) = [])
   \<and> (\<forall>channelIDs.
         ElementsAs (arm_NotificationChannelIDs plan) = Inr channelIDs
         \<and> NewRequest_error rt ''PUT''
             (BaseURL c @ ''/v1/checks/'' @ ValueString (arm_CheckID state) @ ''/alerts/''
                @ ValueString (arm_ID state)) = None
        \<longrightarrow>
         map Method (Requests (alertRuleResource_Update rt c plan state)) = [''PUT'']
         \<and> map URL (Requests (alertRuleResource_Update rt c plan state))
             = [BaseURL c @ ''/v1/checks/'' @ ValueString (arm_CheckID state) @ ''/alerts/''
                  @ ValueString (arm_ID state)]
         \<and> map (\<lambda>r. body_field r ''name'') (Requests (alertRuleResource_Update rt c plan state))
             = [if ValueString (arm_Name plan) \<noteq> ValueString (arm_Name state)
                then Some (JString (ValueString (arm_Name plan))) else None]
         \<and> map (\<lambda>r. body_field r ''condition'')
               (Requests (alertRuleResource_Update rt c plan state))
             = [if arm_Condition plan \<noteq> arm_Condition state
                then Some (JObject (string_elements (arm_Condition plan))) else None]
         \<and> map (\<lambda>r. body_field r ''notification_channel_ids'')
               (Requests (alertRuleResource_Update rt c plan state))
             = [if arm_NotificationChannelIDs plan \<noteq> arm_NotificationChannelIDs state
                then Some (json_of_strings channelIDs) else None]
         \<and> map (\<lambda>r. body_field r ''enabled'')
               (Requests (alertRuleResource_Update rt c plan state))
             = [if ValueBool (arm_Enabled plan) \<noteq> ValueBool (arm_Enabled state)
                then Some (JBool (ValueBool (arm_Enabled plan))) else None]
         \<and> (\<forall>k. k \<notin> {''name'', ''condition'', ''notification_channel_ids'', ''enabled''} \<longrightarrow>
               map (\<lambda>r. body_field r k) (Requests (alertRuleResource_Update rt c plan state))
                 = [None]))
   \<and> (\<forall>req \<in> set (Requests (alertRuleResource_Update rt c plan state)).
         (body_field req ''name'' \<noteq> None
            \<longleftrightarrow> ValueString (arm_Name plan) \<noteq> ValueString (arm_Name state))
         \<and> (body_field req ''condition'' \<noteq> None
            \<longleftrightarrow> arm_Condition plan \<noteq> arm_Condition state)
         \<and> (body_field req ''notification_channel_ids'' \<noteq> None
            \<longleftrightarrow> arm_NotificationChannelIDs plan \<noteq> arm_NotificationChannelIDs state)
         \<and> (body_field req ''enabled'' \<noteq> None
            \<longleftrightarrow> ValueBool (arm_Enabled plan) \<noteq> ValueBool (arm_Enabled state))
         \<and> (\<forall>p q. arm_Name plan = Known p \<and> arm_Name state = Known q \<longrightarrow>
               (body_field req ''name'' \<noteq> None \<longleftrightarrow> p \<noteq> q))
         \<and> (\<forall>a b. arm_Enabled plan = Known a \<and> arm_Enabled state = Known b \<longrightarrow>
               (body_field req ''enabled'' \<noteq> None \<longleftrightarrow> a \<noteq> b))
         \<and> (arm_Name plan = arm_Name state \<longrightarrow> body_field req ''name'' = None)
         \<and> (arm_Condition plan \<noteq> arm_Condition state \<longrightarrow>
              body_field req ''condition''
                = Some (JObject (string_elements (arm_Condition plan))))
         \<and> (\<forall>k. body_field req k \<noteq> None \<longrightarrow>
              k \<in> {''name'', ''condition'', ''notification_channel_ids'', ''enabled''}))"
proof (intro conjI allI impI ballI)
  fix diags
  assume "ElementsAs (arm_NotificationChannelIDs plan) = Inl diags"
  then show "Requests (alertRuleResource_Update rt c plan state) = []"
    by (simp add: alertRuleResource_Update_requests)
next
  fix channelIDs
  assume h: "ElementsAs (arm_NotificationChannelIDs plan) = Inr channelIDs
         \<and> NewRequest_error rt ''PUT''
             (BaseURL c @ ''/v1/checks/'' @ ValueString (arm_CheckID state) @ ''/alerts/''
                @ ValueString (arm_ID state)) = None"
  then have sent: "Requests (alertRuleResource_Update rt c plan state) =
      [\<lparr>Method = ''PUT'',
        URL = BaseURL c @ ''/v1/checks/'' @ ValueString (arm_CheckID state) @ ''/alerts/''
                @ ValueString (arm_ID state),
        Header = request_headers c,
        Body = Some (marshal_UpdateAlertRuleRequest
                       (alertRule_updateReq plan state channelIDs))\<rparr>]"
    by (simp add: alertRuleResource_Update_requests DoRequest_requests)
  show "map Method (Requests (alertRuleResource_Update rt c plan state)) = [''PUT'']"
    by (simp add: sent)
  show "map URL (Requests (alertRuleResource_Update rt c plan state))
             = [BaseURL c @ ''/v1/checks/'' @ ValueString (arm_CheckID state) @ ''/alerts/''
                  @ ValueString (arm_ID state)]"
    by (simp add: sent)
  show "map (\<lambda>r. body_field r ''name'') (Requests (alertRuleResource_Update rt c plan state))
             = [if ValueString (arm_Name plan) \<noteq> ValueString (arm_Name state)
                then Some (JString (ValueString (arm_Name plan))) else None]"
    by (simp add: sent body_field_def marshal_UpdateAlertRuleRequest_def
          alertRule_updateReq_def omitempty_def)
  show "map (\<lambda>r. body_field r ''condition'')
               (Requests (alertRuleResource_Update rt c plan state))
             = [if arm_Condition plan \<noteq> arm_Condition state
                then Some (JObject (string_elements (arm_Condition plan))) else None]"
    by (simp add: sent body_field_def marshal_UpdateAlertRuleRequest_def
          alertRule_updateReq_def omitempty_def)
  show "map (\<lambda>r. body_field r ''notification_channel_ids'')
               (Requests (alertRuleResource_Update rt c plan state))
             = [if arm_NotificationChannelIDs plan \<noteq> arm_NotificationChannelIDs state
                then Some (json_of_strings channelIDs) else None]"
    by (simp add: sent body_field_def marshal_UpdateAlertRuleRequest_def
          alertRule_updateReq_def omitempty_def)
  show "map (\<lambda>r. body_field r ''enabled'')
               (Requests (alertRuleResource_Update rt c plan state))
             = [if ValueBool (arm_Enabled plan) \<noteq> ValueBool (arm_Enabled state)
                then Some (JBool (ValueBool (arm_Enabled plan))) else None]"
    by (simp add: sent body_field_def marshal_UpdateAlertRuleRequest_def
          alertRule_updateReq_def omitempty_def)
  fix k :: string
  assume "k \<notin> {''name'', ''condition'', ''notification_channel_ids'', ''enabled''}"
  then show "map (\<lambda>r. body_field r k) (Requests (alertRuleResource_Update rt c plan state))
                 = [None]"
    by (simp add: sent body_field_def marshal_UpdateAlertRuleRequest_def
          alertRule_updateReq_def omitempty_def)
next
  fix req
  assume "req \<in> set (Requests (alertRuleResource_Update rt c plan state))"
  from alertRule_Update_sent [OF this] obtain channelIDs where
    b: "Body req = Some (marshal_UpdateAlertRuleRequest
                           (alertRule_updateReq plan state channelIDs))"
    by blast
  note defs = body_field_def b marshal_UpdateAlertRuleRequest_def alertRule_updateReq_def
    omitempty_def
  show "body_field req ''name'' \<noteq> None
            \<longleftrightarrow> ValueString (arm_Name plan) \<noteq> ValueString (arm_Name state)"
    by (simp add: defs)
  show "body_field req ''condition'' \<noteq> None
            \<longleftrightarrow> arm_Condition plan \<noteq> arm_Condition state"
    by (simp add: defs)
  show "body_field req ''notification_channel_ids'' \<noteq> None
            \<longleftrightarrow> arm_NotificationChannelIDs plan \<noteq> arm_NotificationChannelIDs state"
    by (simp add: defs)
  show "body_field req ''enabled'' \<noteq> None
            \<longleftrightarrow> ValueBool (arm_Enabled plan) \<noteq> ValueBool (arm_Enabled state)"
    by (simp add: defs)
  show "body_field req ''condition''
                = Some (JObject (string_elements (arm_Condition plan)))"
    if "arm_Condition plan \<noteq> arm_Condition state"
    using that by (simp add: defs)
  show "body_field req ''name'' = None" if "arm_Name plan = arm_Name state"
    using that by (simp add: defs)
  show "body_field req ''name'' \<noteq> None \<longleftrightarrow> p \<noteq> q"
    if "arm_Name plan = Known p \<and> arm_Name state = Known q" for p q
    using that by (simp add: defs)
  show "body_field req ''enabled'' \<noteq> None \<longleftrightarrow> a \<noteq> b"
    if "arm_Enabled plan = Known a \<and> arm_Enabled state = Known b" for a b
    using that by (simp add: defs)
  show "k \<in> {''name'', ''condition'', ''notification_channel_ids'', ''enabled''}"
    if "body_field req k \<noteq> None" for k
    using that by (simp add: defs split: if_splits)
qed

theorem alertRule_Update_patch_body_witness:
  \<open>map Method
     (Requests (alertRuleResource_Update (example_runtime (Response 200 ''{"data":{"id":"x1"}}''))
                  example_client example_rule_plan example_rule)) = [''PUT'']
   \<and> map URL
     (Requests (alertRuleResource_Update (example_runtime (Response 200 ''{"data":{"id":"x1"}}''))
                  example_client example_rule_plan example_rule))
     = [''https://api.quismon.com/v1/checks/c1/alerts/r1'']
   \<and> map (\<lambda>r. body_field r ''name'')
     (Requests (alertRuleResource_Update (example_runtime (Response 200 ''{"data":{"id":"x1"}}''))
                  example_client example_rule_plan example_rule)) = [None]
   \<and> map (\<lambda>r. body_field r ''condition'')
     (Requests (alertRuleResource_Update (example_runtime (Response 200 ''{"data":{"id":"x1"}}''))
                  example_client example_rule_plan example_rule))
     = [Some (JObject [''health_status'' \<mapsto> JString ''degraded''])]
   \<and> map (\<lambda>r. body_field r ''enabled'')
     (Requests (alertRuleResource_Update (example_runtime (Response 200 ''{"data":{"id":"x1"}}''))
                  example_client example_rule_plan example_rule)) = [None]\<close>
proof -
  let ?rt = \<open>example_runtime (Response 200 ''{"data":{"id":"x1"}}'')\<close>
  have ids: "ElementsAs (arm_NotificationChannelIDs example_rule_plan) = Inr (Some [''n1''])"
    by (simp add: example_rule_plan_def example_rule_def)
  have new: "NewRequest_error ?rt ''PUT''
               (BaseURL example_client @ ''/v1/checks/''
                  @ ValueString (arm_CheckID example_rule) @ ''/alerts/''
                  @ ValueString (arm_ID example_rule)) = None"
    by (simp add: example_runtime_def)
  have differ: "arm_Condition example_rule_plan \<noteq> arm_Condition example_rule"
    by (auto simp: example_rule_plan_def example_rule_def dest: map_upd_eqD1)
  have cond: "string_elements (arm_Condition example_rule_plan)
                = [''health_status'' \<mapsto> JString ''degraded'']"
    by (simp add: example_rule_plan_def string_elements_known)
  have same: "ValueString (arm_Name example_rule_plan) = ValueString (arm_Name example_rule)"
    and en: "ValueBool (arm_Enabled example_rule_plan) = ValueBool (arm_Enabled example_rule)"
    by (simp_all add: example_rule_plan_def)
  let ?R = "Requests (alertRuleResource_Update ?rt example_client example_rule_plan
                        example_rule)"
  from alertRule_Update_patch_body
         [of example_rule_plan ?rt example_client example_rule,
          THEN conjunct2, THEN conjunct1, rule_format, OF conjI, OF ids new]
  have m: "map Method ?R = [''PUT'']"
    and u: "map URL ?R = [BaseURL example_client @ ''/v1/checks/''
                  @ ValueString (arm_CheckID example_rule) @ ''/alerts/''
                  @ ValueString (arm_ID example_rule)]"
    and n: "map (\<lambda>r. body_field r ''name'') ?R
             = [if ValueString (arm_Name example_rule_plan) \<noteq> ValueString (arm_Name example_rule)
                then Some (JString (ValueString (arm_Name example_rule_plan))) else None]"
    and co: "map (\<lambda>r. body_field r ''condition'') ?R
             = [if arm_Condition example_rule_plan \<noteq> arm_Condition example_rule
                then Some (JObject (string_elements (arm_Condition example_rule_plan)))
                else None]"
    and e: "map (\<lambda>r. body_field r ''enabled'') ?R
             = [if ValueBool (arm_Enabled example_rule_plan)
                     \<noteq> ValueBool (arm_Enabled example_rule)
                then Some (JBool (ValueBool (arm_Enabled example_rule_plan))) else None]"
    by blast+
  show ?thesis
  proof (intro conjI)
    show "map Method ?R = [''PUT'']" by (rule m)
    show "map URL ?R = [''https://api.quismon.com/v1/checks/c1/alerts/r1'']"
      unfolding u by (simp add: example_rule_def example_client_def)
    show "map (\<lambda>r. body_field r ''name'') ?R = [None]"
      unfolding n by (simp add: same)
    show "map (\<lambda>r. body_field r ''condition'') ?R
            = [Some (JObject [''health_status'' \<mapsto> JString ''degraded''])]"
      unfolding co using differ by (simp add: cond)
    show "map (\<lambda>r. body_field r ''enabled'') ?R = [None]"
      unfolding e by (simp add: en)
  qed
qed

text \<open>
  The claim as it stands fails for a planned \<^verbatim>\<open>enabled\<close> that is unknown: the plan
  renames a disabled rule and leaves \<^verbatim>\<open>enabled\<close> to the provider, the planned
  attribute differs from the state attribute, and the body that goes out has the new
  name and no \<^verbatim>\<open>enabled\<close> field.
\<close>

theorem alertRule_Update_unknown_enabled_counterexample:
  \<open>arm_Enabled example_rule_renamed = Unknown
   \<and> arm_Enabled example_rule_disabled = Known False
   \<and> arm_Enabled example_rule_renamed \<noteq> arm_Enabled example_rule_disabled
   \<and> map Method
       (Requests (alertRuleResource_Update
                    (example_runtime (Response 200 ''{"data":{"id":"x1"}}''))
                    example_client example_rule_renamed example_rule_disabled)) = [''PUT'']
   \<and> map (\<lambda>r. body_field r ''name'')
       (Requests (alertRuleResource_Update
                    (example_runtime (Response 200 ''{"data":{"id":"x1"}}''))
                    example_client example_rule_renamed example_rule_disabled))
       = [Some (JString ''outage'')]
   \<and> map (\<lambda>r. body_field r ''enabled'')
       (Requests (alertRuleResource_Update
                    (example_runtime (Response 200 ''{"data":{"id":"x1"}}''))
                    example_client example_rule_renamed example_rule_disabled)) = [None]\<close>
  by (simp add: alertRuleResource_Update_requests DoRequest_requests body_field_def
        marshal_UpdateAlertRuleRequest_def alertRule_updateReq_def omitempty_def
        example_rule_renamed_def example_rule_disabled_def example_rule_def
        example_runtime_def)

lemma Split_length: "length (Split s sep) = Suc (count_list s sep)"
  by (induction s) (auto split: list.splits)

lemma Split_without_separator: "sep \<notin> set s \<Longrightarrow> Split s sep = [s]"
  by (induction s) auto

lemma Split_at_first_separator:
  "sep \<notin> set a \<Longrightarrow> Split (a @ sep # b) sep = a # Split b sep"
  by (induction a) auto

text \<open>
  C8. Import of an alert rule. The identifier \<^verbatim>\<open>abc:def\<close> sets \<^verbatim>\<open>check_id\<close> to \<^verbatim>\<open>abc\<close>
  and \<^verbatim>\<open>id\<close> to \<^verbatim>\<open>def\<close>, and so does every identifier with one colon for the parts
  before and after it. An identifier that does not split into exactly two parts at
  its colons, that is one with no colon or with more than one, such as \<^verbatim>\<open>abc\<close> and
  \<^verbatim>\<open>a:b:c\<close>, gives the single error "Invalid Import ID" and leaves both attributes
  null. No request is sent either way.
\<close>

theorem alertRuleResource_ImportState_format:
  "alertRuleResource_ImportState ''abc:def'' =
     \<lparr>Requests = [], Diagnostics = [],
      State = Some (alertRuleResourceModel_null
                      \<lparr>arm_CheckID := Known ''abc'', arm_ID := Known ''def''\<rparr>)\<rparr>
   \<and> (CHR '':'' \<notin> set checkID \<and> CHR '':'' \<notin> set ruleID \<longrightarrow>
        alertRuleResource_ImportState (checkID @ '':'' @ ruleID) =
          \<lparr>Requests = [], Diagnostics = [],
           State = Some (alertRuleResourceModel_null
                           \<lparr>arm_CheckID := Known checkID, arm_ID := Known ruleID\<rparr>)\<rparr>)
   \<and> (length (Split ident CHR '':'') \<noteq> 2 \<longrightarrow>
        alertRuleResource_ImportState ident =
          \<lparr>Requests = [],
           Diagnostics =
             [\<lparr>Severity = SeverityError, Summary = ''Invalid Import ID'',
               Detail = ''Expected import ID in format: check_id:rule_id'',
               AttributePath = None\<rparr>],
           State = Some alertRuleResourceModel_null\<rparr>
        \<and> HasError (Diagnostics (alertRuleResource_ImportState ident)))
   \<and> (length (Split ident CHR '':'') \<noteq> 2 \<longleftrightarrow> count_list ident CHR '':'' \<noteq> 1)
   \<and> length (Split ''abc'' CHR '':'') = 1
   \<and> length (Split ''a:b:c'' CHR '':'') = 3"
proof (intro conjI impI)
  show "alertRuleResource_ImportState ''abc:def'' =
     \<lparr>Requests = [], Diagnostics = [],
      State = Some (alertRuleResourceModel_null
                      \<lparr>arm_CheckID := Known ''abc'', arm_ID := Known ''def''\<rparr>)\<rparr>"
    by (simp add: alertRuleResource_ImportState_def)
next
  assume "CHR '':'' \<notin> set checkID \<and> CHR '':'' \<notin> set ruleID"
  then have "Split (checkID @ '':'' @ ruleID) CHR '':'' = [checkID, ruleID]"
    by (simp add: Split_at_first_separator Split_without_separator)
  then show "alertRuleResource_ImportState (checkID @ '':'' @ ruleID) =
          \<lparr>Requests = [], Diagnostics = [],
           State = Some (alertRuleResourceModel_null
                           \<lparr>arm_CheckID := Known checkID, arm_ID := Known ruleID\<rparr>)\<rparr>"
    by (simp add: alertRuleResource_ImportState_def)
next
  assume n: "length (Split ident CHR '':'') \<noteq> 2"
  then show e: "alertRuleResource_ImportState ident =
          \<lparr>Requests = [],
           Diagnostics =
             [\<lparr>Severity = SeverityError, Summary = ''Invalid Import ID'',
               Detail = ''Expected import ID in format: check_id:rule_id'',
               AttributePath = None\<rparr>],
           State = Some alertRuleResourceModel_null\<rparr>"
    by (auto simp: alertRuleResource_ImportState_def AddError_def split: list.splits)
  show "HasError (Diagnostics (alertRuleResource_ImportState ident))"
    by (simp add: e HasError_def)
next
  show "length (Split ident CHR '':'') \<noteq> 2 \<longleftrightarrow> count_list ident CHR '':'' \<noteq> 1"
    by (simp add: Split_length)
next
  show "length (Split ''abc'' CHR '':'') = 1" by simp
  show "length (Split ''a:b:c'' CHR '':'') = 3" by simp
qed

theorem alertRuleResource_ImportState_format_witness:
  "alertRuleResource_ImportState ''c9:r7'' =
     \<lparr>Requests = [], Diagnostics = [],
      State = Some (alertRuleResourceModel_null
                      \<lparr>arm_CheckID := Known ''c9'', arm_ID := Known ''r7''\<rparr>)\<rparr>
   \<and> HasError (Diagnostics (alertRuleResource_ImportState ''abc''))
   \<and> State (alertRuleResource_ImportState ''abc'') = Some alertRuleResourceModel_null
   \<and> HasError (Diagnostics (alertRuleResource_ImportState ''a:b:c''))
   \<and> State (alertRuleResource_ImportState ''a:b:c'') = Some alertRuleResourceModel_null"
  using alertRuleResource_ImportState_format [where checkID = "''c9''" and ruleID = "''r7''"
          and ident = "''abc''"]
        alertRuleResource_ImportState_format [where checkID = "''c9''" and ruleID = "''r7''"
          and ident = "''a:b:c''"]
  by (simp add: HasError_def)

section \<open>Properties of the NotificationChannel resource\<close>

text \<open>
  C6 (as amended). A \<open>Read\<close> of a notification channel that succeeds leaves the
  \<^verbatim>\<open>config\<close> and the \<^verbatim>\<open>id\<close> of the state exactly as they were, and takes \<^verbatim>\<open>org_id\<close>,
  \<^verbatim>\<open>name\<close>, \<^verbatim>\<open>type\<close>, \<^verbatim>\<open>enabled\<close> and the two timestamps from the channel the API
  returned; it reports no diagnostic.
\<close>

theorem notificationChannelResource_Read_frame:
  assumes "snd (GetNotificationChannel rt c (ValueString (ncm_ID state))) = Inr channel"
  shows "State (notificationChannelResource_Read rt c state) =
           Some \<lparr>ncm_ID = ncm_ID state,
                 ncm_OrgID = Known (nc_OrgID channel),
                 ncm_Name = Known (nc_Name channel),
                 ncm_Type = Known (nc_Type channel),
                 ncm_Config = ncm_Config state,
                 ncm_Enabled = Known (nc_Enabled channel),
                 ncm_CreatedAt = Known (nc_CreatedAt channel),
                 ncm_UpdatedAt = Known (nc_UpdatedAt channel)\<rparr>
       \<and> Diagnostics (notificationChannelResource_Read rt c state) = []"
proof -
  obtain reqs where "GetNotificationChannel rt c (ValueString (ncm_ID state))
                       = (reqs, Inr channel)"
    using assms by (cases "GetNotificationChannel rt c (ValueString (ncm_ID state))") simp
  then show ?thesis
    by (cases state) (simp add: notificationChannelResource_Read_def)
qed

theorem notificationChannelResource_Read_frame_witness:
  \<open>map_option ncm_Config
     (State (notificationChannelResource_Read
               (example_runtime (Response 200 ''{"data":{"id":"x1"}}''))
               example_client example_channel))
   = Some (Known [''token'' \<mapsto> Known ''secret''])
   \<and> map_option ncm_Name
     (State (notificationChannelResource_Read
               (example_runtime (Response 200 ''{"data":{"id":"x1"}}''))
               example_client example_channel))
   = Some (Known ''ops'')\<close>
proof -
  let ?rt = \<open>example_runtime (Response 200 ''{"data":{"id":"x1"}}'')\<close>
  let ?ch = "NotificationChannel_zero
               \<lparr>nc_ID := ''x1'', nc_OrgID := ''o1'', nc_Name := ''ops'',
                nc_Type := ''webhook'', nc_Config := Some [''token'' \<mapsto> JString ''***''],
                nc_Enabled := True\<rparr>"
  have "snd (GetNotificationChannel ?rt example_client (ValueString (ncm_ID example_channel)))
          = Inr ?ch"
    by (simp add: GetNotificationChannel_def DoRequest_def UnmarshalAPIResponse_def
          example_runtime_def example_envelope_def)
  from notificationChannelResource_Read_frame [OF this]
  show ?thesis by (simp add: example_channel_def)
qed

text \<open>
  The claim as it stands fails for \<^verbatim>\<open>id\<close>: the state holds the id \<^verbatim>\<open>n0\<close>, the channel
  that the API returns has the id \<^verbatim>\<open>x1\<close>, and after the \<open>Read\<close>, which succeeds, the
  state still holds \<^verbatim>\<open>n0\<close>.
\<close>

theorem notificationChannelResource_Read_id_counterexample:
  \<open>map_sum id nc_ID
     (snd (GetNotificationChannel (example_runtime (Response 200 ''{"data":{"id":"x1"}}''))
             example_client ''n0'')) = Inr ''x1''
   \<and> Diagnostics (notificationChannelResource_Read
                    (example_runtime (Response 200 ''{"data":{"id":"x1"}}''))
                    example_client example_channel) = []
   \<and> map_option ncm_ID
       (State (notificationChannelResource_Read
                 (example_runtime (Response 200 ''{"data":{"id":"x1"}}''))
                 example_client example_channel)) = Some (Known ''n0'')
   \<and> Known ''n0'' \<noteq> (Known ''x1'' :: string attr)\<close>
  by (simp add: notificationChannelResource_Read_def GetNotificationChannel_def DoRequest_def
        UnmarshalAPIResponse_def example_runtime_def example_envelope_def example_channel_def)

section \<open>Properties of the Signup resource\<close>

text \<open>
  C9. \<open>Delete\<close> of a signup sends no request, whatever the runtime, the base URL and
  the state are, and reports no diagnostic: it cannot fail, and the remote
  organization is not touched.
\<close>

theorem signupResource_Delete_local:
  "Requests (signupResource_Delete rt baseURL state) = []
   \<and> Diagnostics (signupResource_Delete rt baseURL state) = []
   \<and> \<not> HasError (Diagnostics (signupResource_Delete rt baseURL state))
   \<and> State (signupResource_Delete rt baseURL state) = Some state"
  by (simp add: signupResource_Delete_def HasError_def)

theorem signupResource_Delete_local_witness:
  "Requests (signupResource_Delete (example_runtime (DoFailed ''no route to host''))
               ''https://api.quismon.com'' example_signup) = []
   \<and> \<not> HasError (Diagnostics
          (signupResource_Delete (example_runtime (DoFailed ''no route to host''))
             ''https://api.quismon.com'' example_signup))"
  using signupResource_Delete_local
          [of "example_runtime (DoFailed ''no route to host'')" "''https://api.quismon.com''"
              example_signup]
  by (simp add: HasError_def)

section \<open>Properties of the provider\<close>

lemma findStateFile_stats: "fst (findStateFile fs) \<noteq> []"
  by (simp add: findStateFile_def split: prod.splits)

lemma readAPIKeyFromState_ops: "fst (readAPIKeyFromState fs) \<noteq> []"
proof -
  obtain ops statePath where f: "findStateFile fs = (ops, statePath)"
    by (cases "findStateFile fs")
  with findStateFile_stats [of fs] have "ops \<noteq> []" by simp
  with f show ?thesis
    by (simp add: readAPIKeyFromState_def split: option.splits)
qed

text \<open>The key that the configuration and the environment give: the configured value
  when it is not null, else the variable.\<close>

lemma Configure_resolve_key:
  assumes "resolved = (if IsNull (pm_APIKey config) then QUISMON_API_KEY env
                       else ValueString (pm_APIKey config))"
    and "readAPIKeyFromState fs = (ops, stateKey, warning)"
  shows "Configure_resolve env fs config =
           \<lparr>cfg_Diagnostics =
              (if resolved = [] \<and> stateKey \<noteq> []
               then [\<lparr>Severity = SeverityWarning,
                      Summary = ''API Key Read from Terraform State'',
                      Detail = warning, AttributePath = None\<rparr>]
               else []),
            cfg_ResourceData =
              Some \<lparr>BaseURL =
                      (let baseURL = (if \<not> IsNull (pm_BaseURL config)
                                      then ValueString (pm_BaseURL config)
                                      else QUISMON_BASE_URL env)
                       in if baseURL = [] then ''https://api.quismon.com'' else baseURL),
                    APIKey = (if resolved = [] then stateKey else resolved)\<rparr>,
            cfg_FileOps = (if resolved = [] then ops else [])\<rparr>"
  using assms by (auto simp: Configure_resolve_def New_def AddWarning_def Let_def)

text \<open>
  C7 (as amended). When no configured value is unknown, \<open>Configure\<close> resolves the API
  key in two steps. First the configured \<^verbatim>\<open>api_key\<close>, when it is not null, replaces the
  value of \<^verbatim>\<open>QUISMON_API_KEY\<close>. Then the state file is consulted exactly when the key
  so resolved is empty, which includes a configured empty string whatever the
  variable holds: a key found there becomes the key of the client and adds one
  warning; with no key found the client gets the empty key and nothing is reported.
  No error is reported on any of these paths.
\<close>

theorem Configure_api_key_resolution:
  assumes "\<not> IsUnknown (pm_APIKey config)" and "\<not> IsUnknown (pm_BaseURL config)"
    and "resolved = (if IsNull (pm_APIKey config) then QUISMON_API_KEY env
                     else ValueString (pm_APIKey config))"
    and "readAPIKeyFromState fs = (ops, stateKey, warning)"
  shows "(resolved \<noteq> [] \<longrightarrow>
            map_option APIKey (cfg_ResourceData (Configure env fs config)) = Some resolved
            \<and> cfg_FileOps (Configure env fs config) = []
            \<and> cfg_Diagnostics (Configure env fs config) = [])
       \<and> (resolved = [] \<longrightarrow>
            cfg_FileOps (Configure env fs config) = ops \<and> ops \<noteq> []
            \<and> map_option APIKey (cfg_ResourceData (Configure env fs config)) = Some stateKey
            \<and> (stateKey \<noteq> [] \<longrightarrow>
                 cfg_Diagnostics (Configure env fs config) =
                   [\<lparr>Severity = SeverityWarning,
                     Summary = ''API Key Read from Terraform State'',
                     Detail = warning, AttributePath = None\<rparr>])
            \<and> (stateKey = [] \<longrightarrow> cfg_Diagnostics (Configure env fs config) = []))
       \<and> \<not> HasError (cfg_Diagnostics (Configure env fs config))"
proof -
  have c: "Configure env fs config = Configure_resolve env fs config"
    using assms(1,2) by (simp add: Configure_def HasError_def)
  have o: "ops \<noteq> []"
    using readAPIKeyFromState_ops [of fs] assms(4) by simp
  show ?thesis
    unfolding c Configure_resolve_key [OF assms(3,4)]
    using o by (simp add: HasError_def)
qed

lemma example_fs_key:
  "readAPIKeyFromState example_fs =
     ([OpStat ''terraform.tfstate'', OpReadFile ''/work/terraform.tfstate''],
      ''state-key'', state_key_warning ''/work/terraform.tfstate'')"
  by (simp add: readAPIKeyFromState_def findStateFile_def example_fs_def)

theorem Configure_api_key_resolution_witness:
  "map_option APIKey
     (cfg_ResourceData
        (Configure \<lparr>QUISMON_API_KEY = ''env-key'', QUISMON_BASE_URL = []\<rparr> example_fs
           \<lparr>pm_APIKey = Known ''cfg-key'', pm_BaseURL = Null\<rparr>)) = Some ''cfg-key''
   \<and> map_option APIKey
     (cfg_ResourceData
        (Configure \<lparr>QUISMON_API_KEY = ''env-key'', QUISMON_BASE_URL = []\<rparr> example_fs
           \<lparr>pm_APIKey = Null, pm_BaseURL = Null\<rparr>)) = Some ''env-key''
   \<and> map_option APIKey
     (cfg_ResourceData
        (Configure \<lparr>QUISMON_API_KEY = [], QUISMON_BASE_URL = []\<rparr> example_fs
           \<lparr>pm_APIKey = Null, pm_BaseURL = Null\<rparr>)) = Some ''state-key''
   \<and> map Severity
     (cfg_Diagnostics
        (Configure \<lparr>QUISMON_API_KEY = [], QUISMON_BASE_URL = []\<rparr> example_fs
           \<lparr>pm_APIKey = Null, pm_BaseURL = Null\<rparr>)) = [SeverityWarning]"
  using Configure_api_key_resolution
          [where env = "\<lparr>QUISMON_API_KEY = ''env-key'', QUISMON_BASE_URL = []\<rparr>"
             and config = "\<lparr>pm_APIKey = Known ''cfg-key'', pm_BaseURL = Null\<rparr>"
             and resolved = "''cfg-key''", OF _ _ _ example_fs_key]
        Configure_api_key_resolution
          [where env = "\<lparr>QUISMON_API_KEY = ''env-key'', QUISMON_BASE_URL = []\<rparr>"
             and config = "\<lparr>pm_APIKey = Null, pm_BaseURL = Null\<rparr>"
             and resolved = "''env-key''", OF _ _ _ example_fs_key]
        Configure_api_key_resolution
          [where env = "\<lparr>QUISMON_API_KEY = [], QUISMON_BASE_URL = []\<rparr>"
             and config = "\<lparr>pm_APIKey = Null, pm_BaseURL = Null\<rparr>"
             and resolved = "[]", OF _ _ _ example_fs_key]
  by simp

text \<open>
  The claim as it stands fails for a configured empty key: the variable holds a key,
  yet the state file is consulted, and the key of the client is the one from the
  state file, the source that comes last.
\<close>

theorem Configure_empty_key_counterexample:
  "cfg_FileOps
     (Configure \<lparr>QUISMON_API_KEY = ''env-key'', QUISMON_BASE_URL = []\<rparr> example_fs
        \<lparr>pm_APIKey = Known [], pm_BaseURL = Null\<rparr>)
     = [OpStat ''terraform.tfstate'', OpReadFile ''/work/terraform.tfstate'']
   \<and> cfg_ResourceData
     (Configure \<lparr>QUISMON_API_KEY = ''env-key'', QUISMON_BASE_URL = []\<rparr> example_fs
        \<lparr>pm_APIKey = Known [], pm_BaseURL = Null\<rparr>)
     = Some \<lparr>BaseURL = ''https://api.quismon.com'', APIKey = ''state-key''\<rparr>
   \<and> \<not> IsNull (Known ([] :: string))
   \<and> ''env-key'' \<noteq> []"
  by (simp add: Configure_def Configure_resolve_def New_def HasError_def example_fs_key)


end
